theory Spec2Isabelle
  imports Complex_Main "HOL-Library.Multiset"
begin

section \<open>The AI self-disruption economy: three simulation engines\<close>

text \<open>
  The repository holds three variants of one agent-based simulation:
  \<^item> \<^verbatim>\<open>ai_economy.py\<close>: fixed automation rate, one wage for all workers
    (definitions with the suffix \<open>_ai\<close>);
  \<^item> \<^verbatim>\<open>eco.py\<close>: stochastic automation rate, heterogeneous wages, the first employed
    workers are automated (suffix \<open>_eco\<close>);
  \<^item> \<^verbatim>\<open>python/chess.py\<close>: as \<^verbatim>\<open>eco.py\<close>, with a shuffle of the employed workers
    and a per-worker history (suffix \<open>_chess\<close>).

  Python's floats are modelled as the reals, Python's ints as \<open>int\<close>. A draw of
  \<^verbatim>\<open>np.random.normal\<close> is an argument of the function that draws it, and the
  permutation that \<^verbatim>\<open>np.random.shuffle\<close> applies is an argument of the step.
  An exception is a value \<open>Inl e\<close> of a sum type.
\<close>

subsection \<open>Module constants\<close>

definition ALPHA :: real where "ALPHA = 5 / 100"
definition ALPHA_MEAN :: real where "ALPHA_MEAN = 5 / 100"
definition ALPHA_STD :: real where "ALPHA_STD = 1 / 100"
definition BETA :: real where "BETA = 8 / 10"
definition GAMMA :: real where "GAMMA = 7 / 10"
definition TAU :: real where "TAU = 3 / 10"
definition EPSILON :: real where "EPSILON = 5 / 10"
definition INITIAL_JOBS :: int where "INITIAL_JOBS = 1000"
definition INITIAL_WAGE :: real where "INITIAL_WAGE = 100"
definition AI_PROFIT_PER_JOB :: real where "AI_PROFIT_PER_JOB = 50"
definition GRID_ROWS :: int where "GRID_ROWS = 25"
definition GRID_COLS :: int where "GRID_COLS = 40"
definition NUM_WORKERS :: int where "NUM_WORKERS = GRID_ROWS * GRID_COLS"

subsection \<open>Python primitives\<close>

datatype error = ZeroDivisionError | IndexError

text \<open>\<^verbatim>\<open>int(x)\<close> on a float truncates toward zero.\<close>

definition py_int :: "real \<Rightarrow> int" where
  "py_int x = (if 0 \<le> x then \<lfloor>x\<rfloor> else \<lceil>x\<rceil>)"

text \<open>\<^verbatim>\<open>a / b\<close> raises on a zero divisor.\<close>

definition py_truediv :: "real \<Rightarrow> real \<Rightarrow> error + real" where
  "py_truediv a b = (if b = 0 then Inl ZeroDivisionError else Inr (a / b))"

text \<open>\<^verbatim>\<open>xs[:k]\<close>: a negative bound counts from the end, a large one is clamped.\<close>

definition py_slice_to :: "int \<Rightarrow> 'a list \<Rightarrow> 'a list" where
  "py_slice_to k xs =
     (if 0 \<le> k then take (nat k) xs else take (length xs - nat (- k)) xs)"

subsection \<open>Worker\<close>

record Worker =
  wage :: real
  employed :: bool
  consumption :: real

definition Worker_init :: "real \<Rightarrow> Worker" where
  "Worker_init w = \<lparr>wage = w, employed = True, consumption = w * BETA\<rparr>"

definition Worker_update :: "Worker \<Rightarrow> Worker" where
  "Worker_update w = w\<lparr>consumption := (if employed w then wage w * BETA else 0)\<rparr>"

text \<open>\<^verbatim>\<open>python/chess.py\<close> writes the product the other way round.\<close>

definition Worker_init_chess :: "real \<Rightarrow> Worker" where
  "Worker_init_chess w = \<lparr>wage = w, employed = True, consumption = BETA * w\<rparr>"

definition Worker_update_chess :: "Worker \<Rightarrow> Worker" where
  "Worker_update_chess w = w\<lparr>consumption := (if employed w then BETA * wage w else 0)\<rparr>"

subsection \<open>AIFirm\<close>

record AIFirm =
  material_gain :: real

definition AIFirm_init :: AIFirm where
  "AIFirm_init = \<lparr>material_gain = 0\<rparr>"

definition raw_profit :: "int \<Rightarrow> real" where
  "raw_profit jobs_to_automate = of_int jobs_to_automate * AI_PROFIT_PER_JOB"

text \<open>
  The conditional expression
  \<^verbatim>\<open>total_consumption / initial_consumption if initial_consumption > 0 else 0\<close>,
  which all three variants share.
\<close>

definition demand_ratio :: "real \<Rightarrow> real \<Rightarrow> error + real" where
  "demand_ratio total_c initial_c =
     (if initial_c > 0 then py_truediv total_c initial_c else Inr 0)"

definition adjusted_profit :: "int \<Rightarrow> real \<Rightarrow> real" where
  "adjusted_profit jobs_to_automate ratio =
     raw_profit jobs_to_automate * max 0 (1 - EPSILON * (1 - ratio))"

text \<open>\<^verbatim>\<open>ai_economy.py\<close>: the rate is the constant \<open>ALPHA\<close>.\<close>

definition AIFirm_update_ai :: "AIFirm \<Rightarrow> int \<Rightarrow> real \<Rightarrow> real \<Rightarrow> error + (AIFirm \<times> int)" where
  "AIFirm_update_ai self n total_c initial_c =
     (let jobs_to_automate = py_int (ALPHA * of_int n) in
      case demand_ratio total_c initial_c of
        Inl e \<Rightarrow> Inl e
      | Inr ratio \<Rightarrow>
          Inr (self\<lparr>material_gain := material_gain self + adjusted_profit jobs_to_automate ratio\<rparr>,
               jobs_to_automate))"

text \<open>
  \<^verbatim>\<open>eco.py\<close> and \<^verbatim>\<open>python/chess.py\<close>: the rate is a normal draw \<open>z\<close>, floored to zero.
\<close>

definition AIFirm_update_eco :: "real \<Rightarrow> AIFirm \<Rightarrow> int \<Rightarrow> real \<Rightarrow> real \<Rightarrow> error + (AIFirm \<times> int)" where
  "AIFirm_update_eco z self n total_c initial_c =
     (let alpha = max 0 z;
          jobs_to_automate = py_int (alpha * of_int n) in
      case demand_ratio total_c initial_c of
        Inl e \<Rightarrow> Inl e
      | Inr ratio \<Rightarrow>
          Inr (self\<lparr>material_gain := material_gain self + adjusted_profit jobs_to_automate ratio\<rparr>,
               jobs_to_automate))"

definition AIFirm_update_chess :: "real \<Rightarrow> AIFirm \<Rightarrow> int \<Rightarrow> real \<Rightarrow> real \<Rightarrow> error + (AIFirm \<times> int)" where
  "AIFirm_update_chess z self n total_c initial_c =
     (let alpha = max 0 z;
          jobs_to_automate = py_int (alpha * of_int n) in
      case demand_ratio total_c initial_c of
        Inl e \<Rightarrow> Inl e
      | Inr ratio \<Rightarrow>
          Inr (self\<lparr>material_gain := material_gain self + adjusted_profit jobs_to_automate ratio\<rparr>,
               jobs_to_automate))"

subsection \<open>NonAIFirm\<close>

record NonAIFirm =
  revenue :: real

definition NonAIFirm_init :: NonAIFirm where
  "NonAIFirm_init = \<lparr>revenue = 0\<rparr>"

definition NonAIFirm_update :: "real \<Rightarrow> NonAIFirm \<Rightarrow> NonAIFirm" where
  "NonAIFirm_update total_c self = self\<lparr>revenue := GAMMA * total_c\<rparr>"

subsection \<open>Government\<close>

record Government =
  tax_revenue :: real

definition Government_init :: Government where
  "Government_init = \<lparr>tax_revenue = 0\<rparr>"

text \<open>\<^verbatim>\<open>ai_economy.py\<close>: the wage bill is the head count times the one wage.\<close>

definition Government_update_ai :: "Government \<Rightarrow> int \<Rightarrow> NonAIFirm list \<Rightarrow> Government \<times> real" where
  "Government_update_ai self n firms =
     (let wages = of_int n * INITIAL_WAGE;
          firm_revenue = sum_list (map revenue firms);
          self' = self\<lparr>tax_revenue := TAU * (wages + firm_revenue)\<rparr>
      in (self', (1 / 2) * tax_revenue self'))"

text \<open>\<^verbatim>\<open>eco.py\<close>: the head count is passed and not used.\<close>

definition Government_update_eco ::
  "Government \<Rightarrow> int \<Rightarrow> NonAIFirm list \<Rightarrow> Worker list \<Rightarrow> Government \<times> real" where
  "Government_update_eco self n firms ws =
     (let wages = sum_list (map wage (filter employed ws));
          firm_revenue = sum_list (map revenue firms);
          self' = self\<lparr>tax_revenue := TAU * (wages + firm_revenue)\<rparr>
      in (self', (1 / 2) * tax_revenue self'))"

definition Government_update_chess ::
  "Government \<Rightarrow> Worker list \<Rightarrow> NonAIFirm list \<Rightarrow> Government \<times> real" where
  "Government_update_chess self ws firms =
     (let wages = sum_list (map wage (filter employed ws));
          revenue' = sum_list (map revenue firms);
          self' = self\<lparr>tax_revenue := TAU * (wages + revenue')\<rparr>
      in (self', (1 / 2) * tax_revenue self'))"

subsection \<open>What the engines share\<close>

text \<open>\<^verbatim>\<open>sum(1 for w in self.workers if w.employed)\<close>\<close>

definition count_employed :: "Worker list \<Rightarrow> int" where
  "count_employed ws = sum_list (map (\<lambda>w. 1) (filter employed ws))"

text \<open>\<^verbatim>\<open>sum(w.employed for w in self.workers)\<close>: a flag counts as 1 or 0.\<close>

definition count_employed_chess :: "Worker list \<Rightarrow> int" where
  "count_employed_chess ws = sum_list (map (\<lambda>w. if employed w then 1 else 0) ws)"

text \<open>\<^verbatim>\<open>[i for i, w in enumerate(self.workers) if w.employed]\<close>\<close>

definition employed_indices :: "Worker list \<Rightarrow> nat list" where
  "employed_indices ws = map fst (filter (\<lambda>(i, w). employed w) (enumerate 0 ws))"

text \<open>
  \<^verbatim>\<open>for idx in indices: self.workers[idx].employed = False\<close>. An index past the end
  of the list raises.
\<close>

fun automate_indices :: "nat list \<Rightarrow> Worker list \<Rightarrow> error + Worker list" where
  "automate_indices [] ws = Inr ws"
| "automate_indices (idx # rest) ws =
     (if idx < length ws
      then automate_indices rest (ws[idx := (ws ! idx)\<lparr>employed := False\<rparr>])
      else Inl IndexError)"

text \<open>
  The loop of \<^verbatim>\<open>ai_economy.py\<close>:
  \<^verbatim>\<open>for i, worker in enumerate(self.workers):
      if i < jobs_to_automate and worker.employed: worker.employed = False\<close>
\<close>

definition automate_ai :: "int \<Rightarrow> Worker list \<Rightarrow> Worker list" where
  "automate_ai jobs_to_automate ws =
     map (\<lambda>(i, worker).
            if int i < jobs_to_automate \<and> employed worker
            then worker\<lparr>employed := False\<rparr> else worker)
         (enumerate 0 ws)"

record Economy_core =
  workers :: "Worker list"
  ai_firm :: AIFirm
  non_ai_firms :: "NonAIFirm list"
  government :: Government
  total_consumption :: real
  initial_consumption :: real

subsection \<open>The engines of \<^verbatim>\<open>ai_economy.py\<close> and \<^verbatim>\<open>eco.py\<close>\<close>

text \<open>The dictionary \<^verbatim>\<open>self.data\<close>: five keys, each a list that grows by one a step.\<close>

record Data =
  Employment :: "int list"
  Consumption :: "real list"
  Tax_Revenue :: "real list"
  AI_Profit :: "real list"
  Non_AI_Revenue :: "real list"

record Economy = Economy_core +
  num_employed :: int
  data :: Data

definition Data_append :: "Data \<Rightarrow> int \<Rightarrow> real \<Rightarrow> real \<Rightarrow> real \<Rightarrow> real \<Rightarrow> Data" where
  "Data_append d e c t p r =
     \<lparr>Employment = Employment d @ [e], Consumption = Consumption d @ [c],
      Tax_Revenue = Tax_Revenue d @ [t], AI_Profit = AI_Profit d @ [p],
      Non_AI_Revenue = Non_AI_Revenue d @ [r]\<rparr>"

definition Economy_init_ai :: Economy where
  "Economy_init_ai =
     \<lparr>workers = replicate (nat INITIAL_JOBS) (Worker_init INITIAL_WAGE),
      ai_firm = AIFirm_init,
      non_ai_firms = replicate 5 NonAIFirm_init,
      government = Government_init,
      total_consumption = of_int INITIAL_JOBS * INITIAL_WAGE * BETA,
      initial_consumption = of_int INITIAL_JOBS * INITIAL_WAGE * BETA,
      num_employed = INITIAL_JOBS,
      data = \<lparr>Employment = [INITIAL_JOBS],
              Consumption = [of_int INITIAL_JOBS * INITIAL_WAGE * BETA],
              Tax_Revenue = [0], AI_Profit = [0], Non_AI_Revenue = [0]\<rparr>\<rparr>"

definition step_ai :: "Economy \<Rightarrow> error + Economy" where
  "step_ai self =
     (let ws = map Worker_update (workers self);
          total_c = sum_list (map consumption ws) in
      case AIFirm_update_ai (ai_firm self) (num_employed self) total_c
             (initial_consumption self) of
        Inl e \<Rightarrow> Inl e
      | Inr (firm, jobs_to_automate) \<Rightarrow>
          (let ws' = automate_ai jobs_to_automate ws;
               n = count_employed ws';
               firms = map (NonAIFirm_update total_c) (non_ai_firms self) in
           case Government_update_ai (government self) n firms of
             (gov, stimulus) \<Rightarrow>
               Inr (self\<lparr>workers := ws', ai_firm := firm, non_ai_firms := firms,
                          government := gov, total_consumption := total_c + stimulus,
                          num_employed := n,
                          data := Data_append (data self) n (total_c + stimulus)
                                    (tax_revenue gov) (material_gain firm)
                                    (sum_list (map revenue firms))\<rparr>)))"

text \<open>
  \<^verbatim>\<open>eco.py\<close>: \<open>draws\<close> are the \<open>INITIAL_JOBS\<close> normal draws of the wages, clipped below
  at 10.
\<close>

definition Economy_init_eco :: "real list \<Rightarrow> Economy" where
  "Economy_init_eco draws =
     (let wages = map (max 10) draws;
          ws = map Worker_init wages;
          total_c = sum_list (map consumption ws) in
      \<lparr>workers = ws,
       ai_firm = AIFirm_init,
       non_ai_firms = replicate 5 NonAIFirm_init,
       government = Government_init,
       total_consumption = total_c,
       initial_consumption = total_c,
       num_employed = INITIAL_JOBS,
       data = \<lparr>Employment = [INITIAL_JOBS], Consumption = [total_c],
               Tax_Revenue = [0], AI_Profit = [0], Non_AI_Revenue = [0]\<rparr>\<rparr>)"

definition step_eco :: "real \<Rightarrow> Economy \<Rightarrow> error + Economy" where
  "step_eco z self =
     (let ws = map Worker_update (workers self);
          total_c = sum_list (map consumption ws) in
      case AIFirm_update_eco z (ai_firm self) (num_employed self) total_c
             (initial_consumption self) of
        Inl e \<Rightarrow> Inl e
      | Inr (firm, jobs_to_automate) \<Rightarrow>
          (let to_automate_indices = py_slice_to jobs_to_automate (employed_indices ws) in
           case automate_indices to_automate_indices ws of
             Inl e \<Rightarrow> Inl e
           | Inr ws' \<Rightarrow>
               (let n = count_employed ws';
                    firms = map (NonAIFirm_update total_c) (non_ai_firms self) in
                case Government_update_eco (government self) n firms ws' of
                  (gov, stimulus) \<Rightarrow>
                    Inr (self\<lparr>workers := ws', ai_firm := firm, non_ai_firms := firms,
                               government := gov, total_consumption := total_c + stimulus,
                               num_employed := n,
                               data := Data_append (data self) n (total_c + stimulus)
                                         (tax_revenue gov) (material_gain firm)
                                         (sum_list (map revenue firms))\<rparr>))))"

subsection \<open>The engine of \<^verbatim>\<open>python/chess.py\<close>\<close>

text \<open>One dictionary of \<^verbatim>\<open>self.history\<close>.\<close>

record Snapshot =
  h_employment :: "bool list"
  h_wages :: "real list"
  h_ai_profit :: real
  h_tax_revenue :: real
  h_consumption :: real

record Economy_chess = Economy_core +
  history :: "Snapshot list"

definition Economy_init_chess :: "real list \<Rightarrow> Economy_chess" where
  "Economy_init_chess draws =
     (let wages = map (max 10) draws;
          ws = map Worker_init_chess wages;
          total_c = sum_list (map consumption ws) in
      \<lparr>workers = ws,
       ai_firm = AIFirm_init,
       non_ai_firms = replicate 5 NonAIFirm_init,
       government = Government_init,
       total_consumption = total_c,
       initial_consumption = total_c,
       history = []\<rparr>)"

text \<open>
  \<open>shuffle\<close> is what \<^verbatim>\<open>np.random.shuffle\<close> does to the list of employed indices at
  this step; it is a shuffle when it returns a permutation of its argument.
\<close>

definition is_shuffle :: "(nat list \<Rightarrow> nat list) \<Rightarrow> bool" where
  "is_shuffle shuffle = (\<forall>xs. mset (shuffle xs) = mset xs)"

definition step_chess :: "real \<Rightarrow> (nat list \<Rightarrow> nat list) \<Rightarrow> Economy_chess \<Rightarrow> error + Economy_chess" where
  "step_chess z shuffle self =
     (let ws = map Worker_update_chess (workers self);
          total_c = sum_list (map consumption ws);
          n = count_employed_chess ws in
      case AIFirm_update_chess z (ai_firm self) n total_c (initial_consumption self) of
        Inl e \<Rightarrow> Inl e
      | Inr (firm, jobs_to_automate) \<Rightarrow>
          (let employed_indices' = shuffle (employed_indices ws) in
           case automate_indices (py_slice_to jobs_to_automate employed_indices') ws of
             Inl e \<Rightarrow> Inl e
           | Inr ws' \<Rightarrow>
               (let firms = map (NonAIFirm_update total_c) (non_ai_firms self) in
                case Government_update_chess (government self) ws' firms of
                  (gov, stimulus) \<Rightarrow>
                    Inr (self\<lparr>workers := ws', ai_firm := firm, non_ai_firms := firms,
                               government := gov, total_consumption := total_c + stimulus,
                               history := history self @
                                 [\<lparr>h_employment = map employed ws',
                                   h_wages = map (\<lambda>w. if employed w then wage w else 0) ws',
                                   h_ai_profit = material_gain firm,
                                   h_tax_revenue = tax_revenue gov,
                                   h_consumption = total_c + stimulus\<rparr>]\<rparr>))))"

subsection \<open>Observations on two worker lists\<close>

text \<open>
  The number of positions at which a worker is employed in the first list and not in the
  second, and the number of positions at which it is the other way round.
\<close>

definition flipped :: "Worker list \<Rightarrow> Worker list \<Rightarrow> nat" where
  "flipped ws ws' = length (filter (\<lambda>(w, w'). employed w \<and> \<not> employed w') (zip ws ws'))"

definition rehired :: "Worker list \<Rightarrow> Worker list \<Rightarrow> nat" where
  "rehired ws ws' = length (filter (\<lambda>(w, w'). \<not> employed w \<and> employed w') (zip ws ws'))"

text \<open>
  What \<^verbatim>\<open>sum(w.consumption for w in self.workers)\<close> yields once every worker has been
  updated: the aggregate consumption of the step before any stimulus.
\<close>

definition pre_stimulus :: "Worker list \<Rightarrow> real" where
  "pre_stimulus ws = sum_list (map (\<lambda>w. if employed w then wage w * BETA else 0) ws)"

text \<open>The states that a run of \<^verbatim>\<open>ai_economy.py\<close> passes through.\<close>

inductive reachable_ai :: "Economy \<Rightarrow> bool" where
  init: "reachable_ai Economy_init_ai"
| step: "reachable_ai s \<Longrightarrow> step_ai s = Inr s' \<Longrightarrow> reachable_ai s'"

subsection \<open>Reference states\<close>

text \<open>The state of \<^verbatim>\<open>ai_economy.py\<close> after one step and after two steps.\<close>

definition ai_after_one :: Economy where
  "ai_after_one =
     \<lparr>workers = replicate 50 \<lparr>wage = 100, employed = False, consumption = 80\<rparr> @
                replicate 950 \<lparr>wage = 100, employed = True, consumption = 80\<rparr>,
      ai_firm = \<lparr>material_gain = 2500\<rparr>,
      non_ai_firms = replicate 5 \<lparr>revenue = 56000\<rparr>,
      government = \<lparr>tax_revenue = 112500\<rparr>,
      total_consumption = 136250,
      initial_consumption = 80000,
      num_employed = 950,
      data = \<lparr>Employment = [1000, 950], Consumption = [80000, 136250],
              Tax_Revenue = [0, 112500], AI_Profit = [0, 2500], Non_AI_Revenue = [0, 280000]\<rparr>\<rparr>"

definition ai_after_two :: Economy where
  "ai_after_two =
     \<lparr>workers = replicate 50 \<lparr>wage = 100, employed = False, consumption = 0\<rparr> @
                replicate 950 \<lparr>wage = 100, employed = True, consumption = 80\<rparr>,
      ai_firm = \<lparr>material_gain = 19165 / 4\<rparr>,
      non_ai_firms = replicate 5 \<lparr>revenue = 53200\<rparr>,
      government = \<lparr>tax_revenue = 108300\<rparr>,
      total_consumption = 130150,
      initial_consumption = 80000,
      num_employed = 950,
      data = \<lparr>Employment = [1000, 950, 950], Consumption = [80000, 136250, 130150],
              Tax_Revenue = [0, 112500, 108300], AI_Profit = [0, 2500, 19165 / 4],
              Non_AI_Revenue = [0, 280000, 266000]\<rparr>\<rparr>"

text \<open>
  \<^verbatim>\<open>eco.py\<close> with 1000 wage draws of 100: the state after a step whose rate draw is 1,
  and the state one step later.
\<close>

definition eco_all_automated :: Economy where
  "eco_all_automated =
     \<lparr>workers = replicate 1000 \<lparr>wage = 100, employed = False, consumption = 80\<rparr>,
      ai_firm = \<lparr>material_gain = 50000\<rparr>,
      non_ai_firms = replicate 5 \<lparr>revenue = 56000\<rparr>,
      government = \<lparr>tax_revenue = 84000\<rparr>,
      total_consumption = 122000,
      initial_consumption = 80000,
      num_employed = 0,
      data = \<lparr>Employment = [1000, 0], Consumption = [80000, 122000],
              Tax_Revenue = [0, 84000], AI_Profit = [0, 50000],
              Non_AI_Revenue = [0, 280000]\<rparr>\<rparr>"

definition eco_settled :: Economy where
  "eco_settled =
     \<lparr>workers = replicate 1000 \<lparr>wage = 100, employed = False, consumption = 0\<rparr>,
      ai_firm = \<lparr>material_gain = 50000\<rparr>,
      non_ai_firms = replicate 5 \<lparr>revenue = 0\<rparr>,
      government = \<lparr>tax_revenue = 0\<rparr>,
      total_consumption = 0,
      initial_consumption = 80000,
      num_employed = 0,
      data = \<lparr>Employment = [1000, 0, 0], Consumption = [80000, 122000, 0],
              Tax_Revenue = [0, 84000, 0], AI_Profit = [0, 50000, 50000],
              Non_AI_Revenue = [0, 280000, 0]\<rparr>\<rparr>"

section \<open>The automation firm\<close>

lemmas consts_defs = ALPHA_def BETA_def GAMMA_def TAU_def EPSILON_def INITIAL_JOBS_def
  INITIAL_WAGE_def AI_PROFIT_PER_JOB_def

lemma py_int_nonneg: "0 \<le> x \<Longrightarrow> 0 \<le> py_int x"
  by (simp add: py_int_def)

lemma demand_ratio_total: "\<exists>r. demand_ratio t i = Inr r"
  by (simp add: demand_ratio_def py_truediv_def)

lemma adjusted_profit_nonneg: "0 \<le> j \<Longrightarrow> 0 \<le> adjusted_profit j r"
  by (simp add: adjusted_profit_def raw_profit_def AI_PROFIT_PER_JOB_def)

text \<open>
  Claim C3. Whatever the aggregate consumption and the baseline are, and whatever the
  draw of the rate is, an update of the automation firm with a head count \<open>n \<ge> 0\<close>
  returns, the number of jobs it returns is not negative, and \<open>material_gain\<close> after the
  update is at least \<open>material_gain\<close> before it. This holds for the update of each of the
  three variants.
\<close>

theorem cumulative_profit_nondecreasing:
  assumes "0 \<le> n"
  shows "(\<exists>self' j. AIFirm_update_ai self n t i = Inr (self', j) \<and> 0 \<le> j \<and>
            material_gain self \<le> material_gain self') \<and>
         (\<exists>self' j. AIFirm_update_eco z self n t i = Inr (self', j) \<and> 0 \<le> j \<and>
            material_gain self \<le> material_gain self') \<and>
         (\<exists>self' j. AIFirm_update_chess z self n t i = Inr (self', j) \<and> 0 \<le> j \<and>
            material_gain self \<le> material_gain self')"
proof -
  obtain r where r: "demand_ratio t i = Inr r"
    using demand_ratio_total by blast
  have a: "0 \<le> py_int (ALPHA * of_int n)"
    using assms by (intro py_int_nonneg) (simp add: ALPHA_def)
  have b: "0 \<le> py_int (max 0 z * of_int n)"
    using assms by (intro py_int_nonneg) simp
  show ?thesis
    using r a b adjusted_profit_nonneg
    by (simp add: AIFirm_update_ai_def AIFirm_update_eco_def AIFirm_update_chess_def Let_def)
qed

theorem cumulative_profit_nondecreasing_witness:
  "(0::int) \<le> 20 \<and>
   (\<exists>self' j. AIFirm_update_eco (1 / 10) \<lparr>material_gain = 7\<rparr> 20 800 1600 = Inr (self', j) \<and>
      0 \<le> j \<and> 7 \<le> material_gain self')"
  using cumulative_profit_nondecreasing [of 20 "\<lparr>material_gain = 7\<rparr>" 800 1600 "1 / 10"]
  by simp

text \<open>
  Claim C5. With a baseline of 0 the demand ratio is 0, and so it is for every baseline
  that is not positive: the division is not reached. With a positive baseline the ratio is
  the aggregate consumption divided by the baseline. The update of the firm returns a
  result, never an error, in each of the three variants and for every input; with the
  baseline 0 it adds the profit adjusted by the ratio 0.
\<close>

theorem demand_ratio_guard:
  "demand_ratio t 0 = Inr 0 \<and>
   (i \<le> 0 \<longrightarrow> demand_ratio t i = Inr 0) \<and>
   (0 < i \<longrightarrow> demand_ratio t i = Inr (t / i)) \<and>
   (\<exists>r. AIFirm_update_ai self n t i = Inr r) \<and>
   (\<exists>r. AIFirm_update_eco z self n t i = Inr r) \<and>
   (\<exists>r. AIFirm_update_chess z self n t i = Inr r) \<and>
   AIFirm_update_ai self n t 0 =
     Inr (self\<lparr>material_gain := material_gain self + adjusted_profit (py_int (ALPHA * of_int n)) 0\<rparr>,
          py_int (ALPHA * of_int n)) \<and>
   AIFirm_update_eco z self n t 0 =
     Inr (self\<lparr>material_gain := material_gain self + adjusted_profit (py_int (max 0 z * of_int n)) 0\<rparr>,
          py_int (max 0 z * of_int n)) \<and>
   AIFirm_update_chess z self n t 0 =
     Inr (self\<lparr>material_gain := material_gain self + adjusted_profit (py_int (max 0 z * of_int n)) 0\<rparr>,
          py_int (max 0 z * of_int n))"
  by (simp add: demand_ratio_def py_truediv_def AIFirm_update_ai_def AIFirm_update_eco_def
      AIFirm_update_chess_def Let_def)

theorem demand_ratio_guard_witness:
  "demand_ratio 40000 80000 = Inr (1 / 2) \<and> demand_ratio 40000 0 = Inr 0 \<and> demand_ratio 40000 (- 1) = Inr 0"
  using demand_ratio_guard [of 40000 80000] demand_ratio_guard [of 40000 "- 1"]
  by simp

section \<open>Lists of workers\<close>

lemma count_employed_length: "count_employed ws = int (length (filter employed ws))"
  by (simp add: count_employed_def sum_list_triv)

lemma count_employed_chess_eq: "count_employed_chess ws = count_employed ws"
  by (induction ws) (simp_all add: count_employed_chess_def count_employed_def)

lemma count_employed_nonneg: "0 \<le> count_employed ws"
  by (simp add: count_employed_length)

lemma count_flags: "int (length (filter id (map employed ws))) = count_employed ws"
  by (simp add: count_employed_length filter_map comp_def)

lemma employed_indices_filter:
  "employed_indices ws = filter (\<lambda>i. employed (ws ! i)) [0..<length ws]"
proof (induction ws rule: rev_induct)
  case Nil
  show ?case by (simp add: employed_indices_def)
next
  case (snoc w ws)
  have "filter (\<lambda>i. employed ((ws @ [w]) ! i)) [0..<length ws]
        = filter (\<lambda>i. employed (ws ! i)) [0..<length ws]"
    by (rule filter_cong) (simp_all add: nth_append)
  with snoc show ?case
    by (simp add: employed_indices_def enumerate_append_eq)
qed

lemma employed_indices_distinct: "distinct (employed_indices ws)"
  by (simp add: employed_indices_filter)

lemma employed_indices_sorted: "sorted (employed_indices ws)"
  unfolding employed_indices_filter by (rule sorted_wrt_filter) simp

lemma employed_indices_set:
  "set (employed_indices ws) = {i. i < length ws \<and> employed (ws ! i)}"
  by (auto simp add: employed_indices_filter)

lemma employed_indices_length:
  "length (employed_indices ws) = length (filter employed ws)"
proof -
  have "filter employed ws = filter employed (map (nth ws) [0..<length ws])"
    by (simp add: map_nth)
  also have "\<dots> = map (nth ws) (filter (employed \<circ> nth ws) [0..<length ws])"
    by (simp only: filter_map)
  finally show ?thesis
    by (simp add: employed_indices_filter comp_def)
qed

lemma employed_indices_replicate:
  "employed_indices (replicate n w) = (if employed w then [0..<n] else [])"
proof -
  have "filter (\<lambda>i. employed (replicate n w ! i)) [0..<n] = filter (\<lambda>i. employed w) [0..<n]"
    by (rule filter_cong) simp_all
  then show ?thesis
    by (simp add: employed_indices_filter)
qed

lemma Worker_update_chess_eq: "Worker_update_chess = Worker_update"
  by (rule ext) (simp add: Worker_update_chess_def Worker_update_def mult.commute)

lemma Worker_update_fields:
  "employed (Worker_update w) = employed w"
  "wage (Worker_update w) = wage w"
  "consumption (Worker_update w) = (if employed w then wage w * BETA else 0)"
  by (simp_all add: Worker_update_def)

lemma filter_employed_update:
  "filter employed (map Worker_update ws) = map Worker_update (filter employed ws)"
  by (induction ws) (simp_all add: Worker_update_fields)

lemma count_employed_update: "count_employed (map Worker_update ws) = count_employed ws"
  by (simp add: count_employed_length filter_employed_update)

lemma update_frame:
  "map wage (map Worker_update ws) = map wage ws"
  "map consumption (map Worker_update ws) = map (\<lambda>w. if employed w then wage w * BETA else 0) ws"
  "sum_list (map consumption (map Worker_update ws)) = pre_stimulus ws"
  by (simp_all add: comp_def Worker_update_fields pre_stimulus_def)

lemma count_employed_zeroed:
  "count_employed (map (\<lambda>w. w\<lparr>consumption := 0\<rparr>) ws) = count_employed ws"
  by (induction ws) (simp_all add: count_employed_length)

lemma py_slice_to_set: "set (py_slice_to k xs) \<subseteq> set xs"
  by (auto simp add: py_slice_to_def dest: in_set_takeD)

lemma py_slice_to_distinct: "distinct xs \<Longrightarrow> distinct (py_slice_to k xs)"
  by (simp add: py_slice_to_def)

lemma py_slice_to_length: "0 \<le> k \<Longrightarrow> length (py_slice_to k xs) = min (nat k) (length xs)"
  by (simp add: py_slice_to_def)

lemma is_shuffle_props:
  assumes "is_shuffle shuffle"
  shows "set (shuffle xs) = set xs" and "distinct (shuffle xs) = distinct xs"
    and "length (shuffle xs) = length xs"
  using assms
  by (auto simp add: is_shuffle_def dest: mset_eq_setD mset_eq_imp_distinct_iff mset_eq_length)

lemma is_shuffle_rev: "is_shuffle rev"
  by (simp add: is_shuffle_def)

section \<open>The selection of the workers to automate\<close>

lemma automate_ai_length: "length (automate_ai j ws) = length ws"
  by (simp add: automate_ai_def)

lemma automate_ai_nth:
  "i < length ws \<Longrightarrow>
   automate_ai j ws ! i =
     (if int i < j \<and> employed (ws ! i) then (ws ! i)\<lparr>employed := False\<rparr> else ws ! i)"
  by (simp add: automate_ai_def nth_enumerate_eq)

lemma automate_ai_take_drop:
  "automate_ai j ws =
     map (\<lambda>w. if employed w then w\<lparr>employed := False\<rparr> else w) (take (nat j) ws) @ drop (nat j) ws"
  by (rule nth_equalityI) (auto simp add: automate_ai_length automate_ai_nth nth_append)

lemma automate_ai_mono:
  "length (automate_ai j ws) = length ws \<and>
   (\<forall>i<length ws. employed (automate_ai j ws ! i) \<longrightarrow> employed (ws ! i))"
  by (simp add: automate_ai_length automate_ai_nth)

lemma automate_ai_frame:
  "map wage (automate_ai j ws) = map wage ws"
  "map consumption (automate_ai j ws) = map consumption ws"
  by (rule nth_equalityI; simp add: automate_ai_length automate_ai_nth)+

lemma automate_ai_prefix_unemployed:
  assumes "nat j \<le> length xs" and "\<forall>x\<in>set xs. \<not> employed x"
  shows "automate_ai j (xs @ ys) = xs @ ys"
proof -
  have "map (\<lambda>w. if employed w then w\<lparr>employed := False\<rparr> else w) (take (nat j) xs) = take (nat j) xs"
    using assms(2) by (intro map_idI) (auto dest: in_set_takeD)
  with assms(1) show ?thesis
    by (simp add: automate_ai_take_drop)
qed

lemma automate_indices_result:
  "automate_indices idxs ws = Inr ws' \<Longrightarrow>
   length ws' = length ws \<and> (\<forall>i\<in>set idxs. i < length ws) \<and>
   (\<forall>i<length ws. ws' ! i = (if i \<in> set idxs then (ws ! i)\<lparr>employed := False\<rparr> else ws ! i))"
proof (induction idxs arbitrary: ws)
  case Nil
  then show ?case by simp
next
  case (Cons idx rest)
  let ?ws1 = "ws[idx := (ws ! idx)\<lparr>employed := False\<rparr>]"
  from Cons.prems have idx: "idx < length ws" and run: "automate_indices rest ?ws1 = Inr ws'"
    by (simp_all split: if_splits)
  from Cons.IH [OF run]
  have len: "length ws' = length ws"
    and rest: "\<forall>i\<in>set rest. i < length ws"
    and nth: "\<forall>i<length ws. ws' ! i =
               (if i \<in> set rest then (?ws1 ! i)\<lparr>employed := False\<rparr> else ?ws1 ! i)"
    by simp_all
  from nth idx have "\<forall>i<length ws. ws' ! i =
      (if i \<in> set (idx # rest) then (ws ! i)\<lparr>employed := False\<rparr> else ws ! i)"
    by (simp add: nth_list_update)
  with len rest idx show ?case by simp
qed

lemma automate_indices_total:
  "\<forall>i\<in>set idxs. i < length ws \<Longrightarrow> \<exists>ws'. automate_indices idxs ws = Inr ws'"
  by (induction idxs arbitrary: ws) simp_all

lemma automate_indices_mono:
  "automate_indices idxs ws = Inr ws' \<Longrightarrow>
   length ws' = length ws \<and> (\<forall>i<length ws. employed (ws' ! i) \<longrightarrow> employed (ws ! i))"
  using automate_indices_result [of idxs ws ws'] by simp

lemma automate_indices_frame:
  assumes "automate_indices idxs ws = Inr ws'"
  shows "map wage ws' = map wage ws" and "map consumption ws' = map consumption ws"
  using automate_indices_result [OF assms]
  by (intro nth_equalityI; simp)+

lemma automate_indices_upt:
  assumes "k \<le> length ws"
  shows "automate_indices [0..<k] ws =
           Inr (map (\<lambda>w. w\<lparr>employed := False\<rparr>) (take k ws) @ drop k ws)"
proof -
  from assms have "\<forall>i\<in>set [0..<k]. i < length ws" by simp
  then obtain ws' where run: "automate_indices [0..<k] ws = Inr ws'"
    using automate_indices_total by blast
  from automate_indices_result [OF run] assms
  have "ws' = map (\<lambda>w. w\<lparr>employed := False\<rparr>) (take k ws) @ drop k ws"
    by (intro nth_equalityI) (auto simp add: nth_append)
  with run show ?thesis by simp
qed

lemma filter_length_mono:
  "(\<And>x. P x \<Longrightarrow> Q x) \<Longrightarrow> length (filter P xs) \<le> length (filter Q xs)"
  by (induction xs) auto

lemma flipped_plus_employed:
  "length ws = length ws' \<Longrightarrow>
   \<forall>(w, w')\<in>set (zip ws ws'). employed w' \<longrightarrow> employed w \<Longrightarrow>
   length (filter employed ws') + flipped ws ws' = length (filter employed ws)"
  unfolding flipped_def
  by (induction ws ws' rule: list_induct2) auto

lemma flipped_card:
  assumes len: "length ws' = length ws"
    and S: "S \<subseteq> {i. i < length ws \<and> employed (ws ! i)}"
    and emp: "\<forall>i<length ws. employed (ws' ! i) = (employed (ws ! i) \<and> i \<notin> S)"
  shows "flipped ws ws' = card S"
proof -
  have "flipped ws ws' =
        card {i. i < length (zip ws ws') \<and> (\<lambda>(w, w'). employed w \<and> \<not> employed w') (zip ws ws' ! i)}"
    unfolding flipped_def by (rule length_filter_conv_card)
  also have "{i. i < length (zip ws ws') \<and> (\<lambda>(w, w'). employed w \<and> \<not> employed w') (zip ws ws' ! i)} = S"
    using len S emp by auto
  finally show ?thesis .
qed

lemma flipped_le_employed: "int (flipped ws ws') \<le> count_employed ws"
proof -
  have "length (filter (\<lambda>(w, w'). employed w \<and> \<not> employed w') (zip ws ws'))
        \<le> length (filter (\<lambda>(w, w'). employed w) (zip ws ws'))"
    by (rule filter_length_mono) auto
  also have "\<dots> = length (filter employed (map fst (zip ws ws')))"
    by (simp add: filter_map comp_def case_prod_unfold)
  also have "\<dots> = length (filter employed (take (min (length ws) (length ws')) ws))"
    by (simp add: map_fst_zip_take)
  also have "\<dots> \<le> length (filter employed ws)"
  proof -
    let ?k = "min (length ws) (length ws')"
    have "filter employed ws = filter employed (take ?k ws) @ filter employed (drop ?k ws)"
      by (metis append_take_drop_id filter_append)
    then show ?thesis by simp
  qed
  finally show ?thesis
    by (simp add: flipped_def count_employed_length)
qed

lemma flipped_map_update: "flipped (map Worker_update ws) ws' = flipped ws ws'"
  by (simp add: flipped_def zip_map1 filter_map comp_def case_prod_unfold Worker_update_fields)

lemma rehired_map_update: "rehired (map Worker_update ws) ws' = rehired ws ws'"
  by (simp add: rehired_def zip_map1 filter_map comp_def case_prod_unfold Worker_update_fields)

lemma no_rehire:
  assumes len: "length ws' = length ws"
    and mono: "\<forall>i<length ws. employed (ws' ! i) \<longrightarrow> employed (ws ! i)"
  shows "rehired ws ws' = 0"
    and "count_employed ws' \<le> count_employed ws"
    and "int (flipped ws ws') = count_employed ws - count_employed ws'"
proof -
  have z: "\<forall>(w, w')\<in>set (zip ws ws'). employed w' \<longrightarrow> employed w"
    using len mono by (auto simp add: in_set_zip)
  then show "rehired ws ws' = 0"
    by (auto simp add: rehired_def filter_empty_conv)
  from len z have "length (filter employed ws') + flipped ws ws' = length (filter employed ws)"
    by (intro flipped_plus_employed) simp_all
  then show "count_employed ws' \<le> count_employed ws"
    and "int (flipped ws ws') = count_employed ws - count_employed ws'"
    by (simp_all add: count_employed_length)
qed

lemma flipped_append:
  "length xs = length xs' \<Longrightarrow>
   flipped (xs @ ys) (xs' @ ys') = flipped xs xs' + flipped ys ys'"
  by (simp add: flipped_def)

lemma flipped_same: "flipped ys ys = 0"
  by (induction ys) (simp_all add: flipped_def)

lemma flipped_map_unemploy:
  "flipped xs (map (\<lambda>w. if employed w then w\<lparr>employed := False\<rparr> else w) xs)
   = length (filter employed xs)"
  by (induction xs) (simp_all add: flipped_def)

lemma flipped_automate_ai:
  "flipped ws (automate_ai j ws) = length (filter employed (take (nat j) ws))"
proof -
  have "flipped (take (nat j) ws @ drop (nat j) ws) (automate_ai j ws)
        = length (filter employed (take (nat j) ws))"
    unfolding automate_ai_take_drop
    by (subst flipped_append) (simp_all add: flipped_same flipped_map_unemploy)
  then show ?thesis by simp
qed

lemma automate_employed:
  assumes sub: "set idxs \<subseteq> set (employed_indices ws)" and dist: "distinct idxs"
  shows "\<exists>ws'. automate_indices idxs ws = Inr ws' \<and> length ws' = length ws \<and>
           (\<forall>i<length ws. ws' ! i = (if i \<in> set idxs then (ws ! i)\<lparr>employed := False\<rparr> else ws ! i)) \<and>
           flipped ws ws' = length idxs \<and>
           count_employed ws' = count_employed ws - int (length idxs) \<and>
           map wage ws' = map wage ws \<and> map consumption ws' = map consumption ws"
proof -
  from sub have bound: "\<forall>i\<in>set idxs. i < length ws"
    by (auto simp add: employed_indices_set)
  then obtain ws' where run: "automate_indices idxs ws = Inr ws'"
    using automate_indices_total by blast
  from automate_indices_result [OF run]
  have len: "length ws' = length ws"
    and nth: "\<forall>i<length ws. ws' ! i = (if i \<in> set idxs then (ws ! i)\<lparr>employed := False\<rparr> else ws ! i)"
    by simp_all
  have S: "set idxs \<subseteq> {i. i < length ws \<and> employed (ws ! i)}"
    using sub by (simp add: employed_indices_set)
  have emp: "\<forall>i<length ws. employed (ws' ! i) = (employed (ws ! i) \<and> i \<notin> set idxs)"
    using nth by simp
  have fl: "flipped ws ws' = length idxs"
    using flipped_card [OF len S emp] dist by (simp add: distinct_card)
  have "\<forall>(w, w')\<in>set (zip ws ws'). employed w' \<longrightarrow> employed w"
    using len emp by (auto simp add: in_set_zip)
  with len have "length (filter employed ws') + flipped ws ws' = length (filter employed ws)"
    by (intro flipped_plus_employed) simp_all
  with fl have cnt: "count_employed ws' = count_employed ws - int (length idxs)"
    by (simp add: count_employed_length)
  have w: "map wage ws' = map wage ws"
    using len nth by (intro nth_equalityI) simp_all
  have c: "map consumption ws' = map consumption ws"
    using len nth by (intro nth_equalityI) simp_all
  from run len nth fl cnt w c show ?thesis by blast
qed

lemma select_employed:
  assumes perm: "set xs = set (employed_indices ws)" "distinct xs"
  shows "\<exists>ws'. automate_indices (py_slice_to j xs) ws = Inr ws' \<and>
           int (flipped ws ws') \<le> count_employed ws \<and> 0 \<le> count_employed ws' \<and>
           count_employed ws' = count_employed ws - int (flipped ws ws') \<and>
           (0 \<le> j \<longrightarrow> int (flipped ws ws') = min j (count_employed ws)) \<and>
           (count_employed ws \<le> j \<longrightarrow> count_employed ws' = 0)"
proof -
  have len: "length xs = length (employed_indices ws)"
    using perm employed_indices_distinct [of ws] by (metis distinct_card)
  have "set (py_slice_to j xs) \<subseteq> set (employed_indices ws)"
    using py_slice_to_set [of j xs] perm by simp
  moreover have "distinct (py_slice_to j xs)"
    using perm by (simp add: py_slice_to_distinct)
  ultimately obtain ws' where run: "automate_indices (py_slice_to j xs) ws = Inr ws'"
    and fl: "flipped ws ws' = length (py_slice_to j xs)"
    and cnt: "count_employed ws' = count_employed ws - int (length (py_slice_to j xs))"
    using automate_employed by blast
  have exact: "int (flipped ws ws') = min j (count_employed ws)" if "0 \<le> j"
    using that fl len
    by (simp add: py_slice_to_length employed_indices_length count_employed_length)
  from run fl cnt exact flipped_le_employed [of ws ws'] count_employed_nonneg [of ws']
    count_employed_nonneg [of ws]
  show ?thesis by auto
qed

lemma first_employed_selected:
  assumes "0 \<le> j"
  shows "\<exists>ws'. automate_indices (py_slice_to j (employed_indices ws)) ws = Inr ws' \<and>
           length ws' = length ws \<and>
           (\<forall>i<length ws. ws' ! i =
              (if i \<in> set (take (nat j) (employed_indices ws))
               then (ws ! i)\<lparr>employed := False\<rparr> else ws ! i))"
proof -
  have "set (py_slice_to j (employed_indices ws)) \<subseteq> set (employed_indices ws)"
    by (rule py_slice_to_set)
  moreover have "distinct (py_slice_to j (employed_indices ws))"
    by (simp add: py_slice_to_distinct employed_indices_distinct)
  ultimately show ?thesis
    using automate_employed [of "py_slice_to j (employed_indices ws)" ws] assms
    by (auto simp add: py_slice_to_def)
qed

section \<open>One step of each engine\<close>

lemma AIFirm_update_ai_Inr:
  "\<exists>r. demand_ratio t i = Inr r \<and>
       AIFirm_update_ai f n t i =
         Inr (f\<lparr>material_gain := material_gain f + adjusted_profit (py_int (ALPHA * of_int n)) r\<rparr>,
              py_int (ALPHA * of_int n))"
  using demand_ratio_total [of t i] by (auto simp add: AIFirm_update_ai_def Let_def)

lemma AIFirm_update_eco_Inr:
  "\<exists>r. demand_ratio t i = Inr r \<and>
       AIFirm_update_eco z f n t i =
         Inr (f\<lparr>material_gain := material_gain f + adjusted_profit (py_int (max 0 z * of_int n)) r\<rparr>,
              py_int (max 0 z * of_int n))"
  using demand_ratio_total [of t i] by (auto simp add: AIFirm_update_eco_def Let_def)

lemma AIFirm_update_chess_eq: "AIFirm_update_chess = AIFirm_update_eco"
  by (intro ext) (simp add: AIFirm_update_chess_def AIFirm_update_eco_def)

lemma revenue_update:
  "map revenue (map (NonAIFirm_update t) firms) = replicate (length firms) (GAMMA * t)"
  by (induction firms) (simp_all add: NonAIFirm_update_def)

lemma step_ai_fields:
  fixes s :: Economy
  defines "W \<equiv> map Worker_update (workers s)"
  defines "T \<equiv> sum_list (map consumption W)"
  defines "J \<equiv> py_int (ALPHA * of_int (num_employed s))"
  shows "\<exists>s' r. step_ai s = Inr s' \<and>
    demand_ratio T (initial_consumption s) = Inr r \<and>
    workers s' = automate_ai J W \<and>
    ai_firm s' = (ai_firm s)\<lparr>material_gain := material_gain (ai_firm s) + adjusted_profit J r\<rparr> \<and>
    non_ai_firms s' = map (NonAIFirm_update T) (non_ai_firms s) \<and>
    government s' = (government s)\<lparr>tax_revenue :=
       TAU * (of_int (count_employed (workers s')) * INITIAL_WAGE + sum_list (map revenue (non_ai_firms s')))\<rparr> \<and>
    total_consumption s' = T + (1 / 2) * tax_revenue (government s') \<and>
    initial_consumption s' = initial_consumption s \<and>
    num_employed s' = count_employed (workers s') \<and>
    data s' = Data_append (data s) (num_employed s') (total_consumption s')
                (tax_revenue (government s')) (material_gain (ai_firm s'))
                (sum_list (map revenue (non_ai_firms s')))"
proof -
  obtain r where r: "demand_ratio T (initial_consumption s) = Inr r"
    using demand_ratio_total by blast
  show ?thesis
    using r
    by (simp add: step_ai_def Let_def AIFirm_update_ai_def Government_update_ai_def
        W_def [symmetric] T_def [symmetric] J_def [symmetric])
qed

lemma step_eco_fields:
  fixes s :: Economy and z :: real
  defines "W \<equiv> map Worker_update (workers s)"
  defines "T \<equiv> sum_list (map consumption W)"
  defines "J \<equiv> py_int (max 0 z * of_int (num_employed s))"
  shows "\<exists>s' r. step_eco z s = Inr s' \<and>
    demand_ratio T (initial_consumption s) = Inr r \<and>
    automate_indices (py_slice_to J (employed_indices W)) W = Inr (workers s') \<and>
    ai_firm s' = (ai_firm s)\<lparr>material_gain := material_gain (ai_firm s) + adjusted_profit J r\<rparr> \<and>
    non_ai_firms s' = map (NonAIFirm_update T) (non_ai_firms s) \<and>
    government s' = (government s)\<lparr>tax_revenue :=
       TAU * (sum_list (map wage (filter employed (workers s'))) + sum_list (map revenue (non_ai_firms s')))\<rparr> \<and>
    total_consumption s' = T + (1 / 2) * tax_revenue (government s') \<and>
    initial_consumption s' = initial_consumption s \<and>
    num_employed s' = count_employed (workers s') \<and>
    data s' = Data_append (data s) (num_employed s') (total_consumption s')
                (tax_revenue (government s')) (material_gain (ai_firm s'))
                (sum_list (map revenue (non_ai_firms s')))"
proof -
  obtain r where r: "demand_ratio T (initial_consumption s) = Inr r"
    using demand_ratio_total by blast
  have "set (py_slice_to J (employed_indices W)) \<subseteq> set (employed_indices W)"
    by (rule py_slice_to_set)
  moreover have "distinct (py_slice_to J (employed_indices W))"
    by (simp add: py_slice_to_distinct employed_indices_distinct)
  ultimately obtain ws' where
    run: "automate_indices (py_slice_to J (employed_indices W)) W = Inr ws'"
    using automate_employed by blast
  show ?thesis
    using r run
    by (simp add: step_eco_def Let_def AIFirm_update_eco_def Government_update_eco_def
        W_def [symmetric] T_def [symmetric] J_def [symmetric])
qed

lemma step_chess_fields:
  fixes s :: Economy_chess and z :: real
  defines "W \<equiv> map Worker_update_chess (workers s)"
  defines "T \<equiv> sum_list (map consumption W)"
  defines "J \<equiv> py_int (max 0 z * of_int (count_employed_chess W))"
  assumes sh: "is_shuffle shuffle"
  shows "\<exists>s' r. step_chess z shuffle s = Inr s' \<and>
    demand_ratio T (initial_consumption s) = Inr r \<and>
    automate_indices (py_slice_to J (shuffle (employed_indices W))) W = Inr (workers s') \<and>
    ai_firm s' = (ai_firm s)\<lparr>material_gain := material_gain (ai_firm s) + adjusted_profit J r\<rparr> \<and>
    non_ai_firms s' = map (NonAIFirm_update T) (non_ai_firms s) \<and>
    government s' = (government s)\<lparr>tax_revenue :=
       TAU * (sum_list (map wage (filter employed (workers s'))) + sum_list (map revenue (non_ai_firms s')))\<rparr> \<and>
    total_consumption s' = T + (1 / 2) * tax_revenue (government s') \<and>
    initial_consumption s' = initial_consumption s \<and>
    history s' = history s @
      [\<lparr>h_employment = map employed (workers s'),
        h_wages = map (\<lambda>w. if employed w then wage w else 0) (workers s'),
        h_ai_profit = material_gain (ai_firm s'),
        h_tax_revenue = tax_revenue (government s'),
        h_consumption = total_consumption s'\<rparr>]"
proof -
  obtain r where r: "demand_ratio T (initial_consumption s) = Inr r"
    using demand_ratio_total by blast
  have "set (py_slice_to J (shuffle (employed_indices W))) \<subseteq> set (employed_indices W)"
    using py_slice_to_set [of J "shuffle (employed_indices W)"] is_shuffle_props(1) [OF sh]
    by simp
  moreover have "distinct (py_slice_to J (shuffle (employed_indices W)))"
    by (simp add: py_slice_to_distinct employed_indices_distinct is_shuffle_props(2) [OF sh])
  ultimately obtain ws' where
    run: "automate_indices (py_slice_to J (shuffle (employed_indices W))) W = Inr ws'"
    using automate_employed by blast
  show ?thesis
    using r run
    by (simp add: step_chess_def Let_def AIFirm_update_chess_def Government_update_chess_def
        W_def [symmetric] T_def [symmetric] J_def [symmetric])
qed

lemma step_ai_workers:
  "\<exists>s'. step_ai s = Inr s' \<and> num_employed s' = count_employed (workers s') \<and>
        last (Employment (data s')) = num_employed s' \<and>
        length (workers s') = length (workers s) \<and>
        (\<forall>i<length (workers s). employed (workers s' ! i) \<longrightarrow> employed (workers s ! i))"
proof -
  obtain s' where s': "step_ai s = Inr s'" "num_employed s' = count_employed (workers s')"
    "workers s' = automate_ai (py_int (ALPHA * of_int (num_employed s))) (map Worker_update (workers s))"
    "data s' = Data_append (data s) (num_employed s') (total_consumption s')
                (tax_revenue (government s')) (material_gain (ai_firm s'))
                (sum_list (map revenue (non_ai_firms s')))"
    using step_ai_fields [of s] by blast
  then show ?thesis
    by (simp add: automate_ai_length automate_ai_nth Worker_update_fields Data_append_def)
qed

lemma step_eco_workers:
  "\<exists>s'. step_eco z s = Inr s' \<and> num_employed s' = count_employed (workers s') \<and>
        last (Employment (data s')) = num_employed s' \<and>
        length (workers s') = length (workers s) \<and>
        (\<forall>i<length (workers s). employed (workers s' ! i) \<longrightarrow> employed (workers s ! i))"
proof -
  obtain s' where s': "step_eco z s = Inr s'" "num_employed s' = count_employed (workers s')"
    "automate_indices (py_slice_to (py_int (max 0 z * of_int (num_employed s)))
        (employed_indices (map Worker_update (workers s)))) (map Worker_update (workers s))
      = Inr (workers s')"
    "data s' = Data_append (data s) (num_employed s') (total_consumption s')
                (tax_revenue (government s')) (material_gain (ai_firm s'))
                (sum_list (map revenue (non_ai_firms s')))"
    using step_eco_fields [of z s] by blast
  from automate_indices_mono [OF s'(3)] s'(1,2,4) show ?thesis
    by (simp add: Worker_update_fields Data_append_def)
qed

lemma step_chess_workers:
  assumes "is_shuffle shuffle"
  shows "\<exists>s'. step_chess z shuffle s = Inr s' \<and>
        h_employment (last (history s')) = map employed (workers s') \<and>
        length (workers s') = length (workers s) \<and>
        (\<forall>i<length (workers s). employed (workers s' ! i) \<longrightarrow> employed (workers s ! i))"
proof -
  let ?W = "map Worker_update_chess (workers s)"
  obtain s' where s': "step_chess z shuffle s = Inr s'"
    "automate_indices (py_slice_to (py_int (max 0 z * of_int (count_employed_chess ?W)))
        (shuffle (employed_indices ?W))) ?W = Inr (workers s')"
    "history s' = history s @
      [\<lparr>h_employment = map employed (workers s'),
        h_wages = map (\<lambda>w. if employed w then wage w else 0) (workers s'),
        h_ai_profit = material_gain (ai_firm s'),
        h_tax_revenue = tax_revenue (government s'),
        h_consumption = total_consumption s'\<rparr>]"
    using step_chess_fields [OF assms, of z s] by blast
  from automate_indices_mono [OF s'(2)] s'(1,3) show ?thesis
    by (simp add: Worker_update_fields Worker_update_chess_eq)
qed

lemma step_ai_init: "step_ai Economy_init_ai = Inr ai_after_one"
  by (simp add: step_ai_def Economy_init_ai_def ai_after_one_def Let_def AIFirm_update_ai_def
      demand_ratio_def py_truediv_def automate_ai_take_drop Worker_update_def Worker_init_def
      consts_defs py_int_def adjusted_profit_def raw_profit_def count_employed_length
      Government_update_ai_def NonAIFirm_update_def NonAIFirm_init_def AIFirm_init_def
      Government_init_def Data_append_def sum_list_replicate)

lemma step_ai_after_one: "step_ai ai_after_one = Inr ai_after_two"
  by (simp add: step_ai_def ai_after_one_def ai_after_two_def Let_def AIFirm_update_ai_def
      demand_ratio_def py_truediv_def automate_ai_prefix_unemployed Worker_update_def
      consts_defs py_int_def adjusted_profit_def raw_profit_def count_employed_length
      Government_update_ai_def NonAIFirm_update_def Data_append_def sum_list_replicate)

lemma step_eco_all_automated:
  "step_eco 1 (Economy_init_eco (replicate 1000 100)) = Inr eco_all_automated"
  by (simp add: step_eco_def Economy_init_eco_def eco_all_automated_def Let_def
      AIFirm_update_eco_def demand_ratio_def py_truediv_def Worker_update_def Worker_init_def
      consts_defs py_int_def adjusted_profit_def raw_profit_def count_employed_length
      Government_update_eco_def NonAIFirm_update_def NonAIFirm_init_def AIFirm_init_def
      Government_init_def Data_append_def sum_list_replicate employed_indices_replicate
      py_slice_to_def automate_indices_upt)

lemma step_eco_settled: "step_eco 0 eco_all_automated = Inr eco_settled"
  by (simp add: step_eco_def eco_settled_def eco_all_automated_def Let_def
      AIFirm_update_eco_def demand_ratio_def py_truediv_def Worker_update_def
      consts_defs py_int_def adjusted_profit_def raw_profit_def count_employed_length
      Government_update_eco_def NonAIFirm_update_def
      Data_append_def sum_list_replicate employed_indices_replicate
      py_slice_to_def)

text \<open>
  Claim C2. A step of each engine returns a state with as many workers as before, in which
  no worker that was unemployed is employed, so that the number of employed workers does
  not grow; the head count the step stores and records is that number. Hence of two
  consecutive steps the later one records a head count that is at most the one the earlier
  step recorded. For \<^verbatim>\<open>python/chess.py\<close> the shuffle has to return a permutation.
\<close>

theorem employment_never_increases:
  "(\<exists>s'. step_ai s = Inr s' \<and> length (workers s') = length (workers s) \<and>
      rehired (workers s) (workers s') = 0 \<and>
      count_employed (workers s') \<le> count_employed (workers s) \<and>
      num_employed s' = count_employed (workers s') \<and>
      last (Employment (data s')) = count_employed (workers s')) \<and>
   (\<exists>s'. step_eco z s = Inr s' \<and> length (workers s') = length (workers s) \<and>
      rehired (workers s) (workers s') = 0 \<and>
      count_employed (workers s') \<le> count_employed (workers s) \<and>
      num_employed s' = count_employed (workers s') \<and>
      last (Employment (data s')) = count_employed (workers s')) \<and>
   (is_shuffle shuffle \<longrightarrow>
    (\<exists>c'. step_chess z shuffle c = Inr c' \<and> length (workers c') = length (workers c) \<and>
      rehired (workers c) (workers c') = 0 \<and>
      count_employed_chess (workers c') \<le> count_employed_chess (workers c) \<and>
      h_employment (last (history c')) = map employed (workers c'))) \<and>
   (step_ai s0 = Inr s1 \<longrightarrow>
    (\<exists>s2. step_ai s1 = Inr s2 \<and> num_employed s2 \<le> num_employed s1 \<and>
      last (Employment (data s2)) \<le> last (Employment (data s1)))) \<and>
   (step_eco z0 s0 = Inr s1 \<longrightarrow>
    (\<exists>s2. step_eco z s1 = Inr s2 \<and> num_employed s2 \<le> num_employed s1 \<and>
      last (Employment (data s2)) \<le> last (Employment (data s1)))) \<and>
   (is_shuffle shuffle0 \<and> is_shuffle shuffle \<and> step_chess z0 shuffle0 c0 = Inr c1 \<longrightarrow>
    (\<exists>c2. step_chess z shuffle c1 = Inr c2 \<and>
      length (filter id (h_employment (last (history c2))))
        \<le> length (filter id (h_employment (last (history c1))))))"
proof (intro conjI impI; (elim conjE)?)
  obtain s' where s': "step_ai s = Inr s'" "num_employed s' = count_employed (workers s')"
    "last (Employment (data s')) = num_employed s'"
    and m: "length (workers s') = length (workers s)"
      "\<forall>i<length (workers s). employed (workers s' ! i) \<longrightarrow> employed (workers s ! i)"
    using step_ai_workers [of s] by blast
  from s' m no_rehire(1,2) [OF m]
  show "\<exists>s'. step_ai s = Inr s' \<and> length (workers s') = length (workers s) \<and>
      rehired (workers s) (workers s') = 0 \<and>
      count_employed (workers s') \<le> count_employed (workers s) \<and>
      num_employed s' = count_employed (workers s') \<and>
      last (Employment (data s')) = count_employed (workers s')"
    by simp
next
  obtain s' where s': "step_eco z s = Inr s'" "num_employed s' = count_employed (workers s')"
    "last (Employment (data s')) = num_employed s'"
    and m: "length (workers s') = length (workers s)"
      "\<forall>i<length (workers s). employed (workers s' ! i) \<longrightarrow> employed (workers s ! i)"
    using step_eco_workers [of z s] by blast
  from s' m no_rehire(1,2) [OF m]
  show "\<exists>s'. step_eco z s = Inr s' \<and> length (workers s') = length (workers s) \<and>
      rehired (workers s) (workers s') = 0 \<and>
      count_employed (workers s') \<le> count_employed (workers s) \<and>
      num_employed s' = count_employed (workers s') \<and>
      last (Employment (data s')) = count_employed (workers s')"
    by simp
next
  assume sh: "is_shuffle shuffle"
  obtain c' where c': "step_chess z shuffle c = Inr c'"
    "h_employment (last (history c')) = map employed (workers c')"
    and m: "length (workers c') = length (workers c)"
      "\<forall>i<length (workers c). employed (workers c' ! i) \<longrightarrow> employed (workers c ! i)"
    using step_chess_workers [OF sh, of z c] by blast
  from c' m no_rehire(1,2) [OF m]
  show "\<exists>c'. step_chess z shuffle c = Inr c' \<and> length (workers c') = length (workers c) \<and>
      rehired (workers c) (workers c') = 0 \<and>
      count_employed_chess (workers c') \<le> count_employed_chess (workers c) \<and>
      h_employment (last (history c')) = map employed (workers c')"
    by (simp add: count_employed_chess_eq)
next
  assume first: "step_ai s0 = Inr s1"
  with step_ai_workers [of s0]
  have s1: "num_employed s1 = count_employed (workers s1)"
    "last (Employment (data s1)) = num_employed s1"
    by auto
  obtain s2 where s2: "step_ai s1 = Inr s2" "num_employed s2 = count_employed (workers s2)"
    "last (Employment (data s2)) = num_employed s2"
    and m: "length (workers s2) = length (workers s1)"
      "\<forall>i<length (workers s1). employed (workers s2 ! i) \<longrightarrow> employed (workers s1 ! i)"
    using step_ai_workers [of s1] by blast
  from s1 s2 no_rehire(2) [OF m]
  show "\<exists>s2. step_ai s1 = Inr s2 \<and> num_employed s2 \<le> num_employed s1 \<and>
      last (Employment (data s2)) \<le> last (Employment (data s1))"
    by simp
next
  assume first: "step_eco z0 s0 = Inr s1"
  with step_eco_workers [of z0 s0]
  have s1: "num_employed s1 = count_employed (workers s1)"
    "last (Employment (data s1)) = num_employed s1"
    by auto
  obtain s2 where s2: "step_eco z s1 = Inr s2" "num_employed s2 = count_employed (workers s2)"
    "last (Employment (data s2)) = num_employed s2"
    and m: "length (workers s2) = length (workers s1)"
      "\<forall>i<length (workers s1). employed (workers s2 ! i) \<longrightarrow> employed (workers s1 ! i)"
    using step_eco_workers [of z s1] by blast
  from s1 s2 no_rehire(2) [OF m]
  show "\<exists>s2. step_eco z s1 = Inr s2 \<and> num_employed s2 \<le> num_employed s1 \<and>
      last (Employment (data s2)) \<le> last (Employment (data s1))"
    by simp
next
  assume sh0: "is_shuffle shuffle0" and sh: "is_shuffle shuffle"
    and first: "step_chess z0 shuffle0 c0 = Inr c1"
  with step_chess_workers [OF sh0, of z0 c0]
  have c1: "h_employment (last (history c1)) = map employed (workers c1)"
    by auto
  obtain c2 where c2: "step_chess z shuffle c1 = Inr c2"
    "h_employment (last (history c2)) = map employed (workers c2)"
    and m: "length (workers c2) = length (workers c1)"
      "\<forall>i<length (workers c1). employed (workers c2 ! i) \<longrightarrow> employed (workers c1 ! i)"
    using step_chess_workers [OF sh, of z c1] by blast
  have "int (length (filter id (h_employment (last (history c2)))))
        \<le> int (length (filter id (h_employment (last (history c1)))))"
    unfolding c1 c2(2) count_flags by (rule no_rehire(2) [OF m])
  with c2(1)
  show "\<exists>c2. step_chess z shuffle c1 = Inr c2 \<and>
      length (filter id (h_employment (last (history c2))))
        \<le> length (filter id (h_employment (last (history c1))))"
    by auto
qed

theorem employment_never_increases_witness:
  "is_shuffle rev \<and>
   step_ai Economy_init_ai = Inr ai_after_one \<and>
   (\<exists>s2. step_ai ai_after_one = Inr s2 \<and> num_employed s2 \<le> num_employed ai_after_one) \<and>
   step_eco 1 (Economy_init_eco (replicate 1000 100)) = Inr eco_all_automated \<and>
   (\<exists>s2. step_eco (1 / 20) eco_all_automated = Inr s2 \<and>
      last (Employment (data s2)) \<le> last (Employment (data eco_all_automated))) \<and>
   (\<exists>c1. step_chess (1 / 20) rev (Economy_init_chess (replicate 1000 100)) = Inr c1 \<and>
      rehired (workers (Economy_init_chess (replicate 1000 100))) (workers c1) = 0 \<and>
      (\<exists>c2. step_chess (1 / 20) rev c1 = Inr c2 \<and>
         length (filter id (h_employment (last (history c2))))
           \<le> length (filter id (h_employment (last (history c1))))))"
proof -
  let ?c0 = "Economy_init_chess (replicate 1000 100)"
  note sh = is_shuffle_rev
  obtain c1 where c1: "step_chess (1 / 20) rev ?c0 = Inr c1"
    "rehired (workers ?c0) (workers c1) = 0"
    using employment_never_increases [where shuffle = rev and z = "1 / 20" and c = ?c0] sh
    by blast
  have chess: "\<exists>c2. step_chess (1 / 20) rev c1 = Inr c2 \<and>
         length (filter id (h_employment (last (history c2))))
           \<le> length (filter id (h_employment (last (history c1))))"
    using employment_never_increases [where shuffle = rev and ?shuffle0.0 = rev
        and z = "1 / 20" and ?z0.0 = "1 / 20" and ?c0.0 = ?c0 and ?c1.0 = c1] sh c1(1)
    by blast
  have ai: "\<exists>s2. step_ai ai_after_one = Inr s2 \<and> num_employed s2 \<le> num_employed ai_after_one"
    using employment_never_increases [where ?s0.0 = Economy_init_ai and ?s1.0 = ai_after_one]
      step_ai_init
    by blast
  have eco: "\<exists>s2. step_eco (1 / 20) eco_all_automated = Inr s2 \<and>
      last (Employment (data s2)) \<le> last (Employment (data eco_all_automated))"
    using employment_never_increases [where ?s0.0 = "Economy_init_eco (replicate 1000 100)"
        and ?s1.0 = eco_all_automated and ?z0.0 = 1 and z = "1 / 20"]
      step_eco_all_automated
    by blast
  from sh step_ai_init step_eco_all_automated ai eco c1 chess show ?thesis
    by blast
qed

text \<open>
  Claim C8. Whatever number of jobs is asked for, negative or larger than the number of
  employed workers, the selection of each engine returns without an error, flips at most
  as many workers as were employed and leaves a head count that is not negative. In
  \<^verbatim>\<open>eco.py\<close> and \<^verbatim>\<open>python/chess.py\<close> a number of jobs \<open>j \<ge> 0\<close> flips exactly the
  minimum of \<open>j\<close> and the number of employed workers, and a number of jobs at least the
  number of employed workers leaves nobody employed. A step of each engine returns, with a
  head count that is not negative.
\<close>

theorem selection_never_exceeds_employed:
  "int (flipped ws (automate_ai j ws)) \<le> count_employed ws \<and>
   0 \<le> count_employed (automate_ai j ws) \<and>
   count_employed (automate_ai j ws) = count_employed ws - int (flipped ws (automate_ai j ws)) \<and>
   (\<exists>ws'. automate_indices (py_slice_to j (employed_indices ws)) ws = Inr ws' \<and>
      int (flipped ws ws') \<le> count_employed ws \<and> 0 \<le> count_employed ws' \<and>
      count_employed ws' = count_employed ws - int (flipped ws ws') \<and>
      (0 \<le> j \<longrightarrow> int (flipped ws ws') = min j (count_employed ws)) \<and>
      (count_employed ws \<le> j \<longrightarrow> count_employed ws' = 0)) \<and>
   (is_shuffle shuffle \<longrightarrow>
    (\<exists>ws'. automate_indices (py_slice_to j (shuffle (employed_indices ws))) ws = Inr ws' \<and>
      int (flipped ws ws') \<le> count_employed ws \<and> 0 \<le> count_employed ws' \<and>
      count_employed ws' = count_employed ws - int (flipped ws ws') \<and>
      (0 \<le> j \<longrightarrow> int (flipped ws ws') = min j (count_employed ws)) \<and>
      (count_employed ws \<le> j \<longrightarrow> count_employed ws' = 0))) \<and>
   (\<exists>s'. step_ai s = Inr s' \<and> 0 \<le> num_employed s' \<and>
      int (flipped (workers s) (workers s')) \<le> count_employed (workers s)) \<and>
   (\<exists>s'. step_eco z s = Inr s' \<and> 0 \<le> num_employed s' \<and>
      int (flipped (workers s) (workers s')) \<le> count_employed (workers s)) \<and>
   (is_shuffle shuffle \<longrightarrow>
    (\<exists>c'. step_chess z shuffle c = Inr c' \<and> 0 \<le> count_employed_chess (workers c') \<and>
      int (flipped (workers c) (workers c')) \<le> count_employed_chess (workers c)))"
proof (intro conjI impI)
  show "int (flipped ws (automate_ai j ws)) \<le> count_employed ws"
    by (rule flipped_le_employed)
  show "0 \<le> count_employed (automate_ai j ws)"
    by (rule count_employed_nonneg)
  show "count_employed (automate_ai j ws) = count_employed ws - int (flipped ws (automate_ai j ws))"
    using no_rehire(3) [of "automate_ai j ws" ws] automate_ai_mono [of j ws] by simp
  show "\<exists>ws'. automate_indices (py_slice_to j (employed_indices ws)) ws = Inr ws' \<and>
      int (flipped ws ws') \<le> count_employed ws \<and> 0 \<le> count_employed ws' \<and>
      count_employed ws' = count_employed ws - int (flipped ws ws') \<and>
      (0 \<le> j \<longrightarrow> int (flipped ws ws') = min j (count_employed ws)) \<and>
      (count_employed ws \<le> j \<longrightarrow> count_employed ws' = 0)"
    by (rule select_employed) (simp_all add: employed_indices_distinct)
  show "\<exists>s'. step_ai s = Inr s' \<and> 0 \<le> num_employed s' \<and>
      int (flipped (workers s) (workers s')) \<le> count_employed (workers s)"
    using step_ai_workers [of s] flipped_le_employed count_employed_nonneg by metis
  show "\<exists>s'. step_eco z s = Inr s' \<and> 0 \<le> num_employed s' \<and>
      int (flipped (workers s) (workers s')) \<le> count_employed (workers s)"
    using step_eco_workers [of z s] flipped_le_employed count_employed_nonneg by metis
next
  assume sh: "is_shuffle shuffle"
  show "\<exists>ws'. automate_indices (py_slice_to j (shuffle (employed_indices ws))) ws = Inr ws' \<and>
      int (flipped ws ws') \<le> count_employed ws \<and> 0 \<le> count_employed ws' \<and>
      count_employed ws' = count_employed ws - int (flipped ws ws') \<and>
      (0 \<le> j \<longrightarrow> int (flipped ws ws') = min j (count_employed ws)) \<and>
      (count_employed ws \<le> j \<longrightarrow> count_employed ws' = 0)"
    by (rule select_employed)
      (simp_all add: is_shuffle_props [OF sh] employed_indices_distinct)
next
  assume sh: "is_shuffle shuffle"
  show "\<exists>c'. step_chess z shuffle c = Inr c' \<and> 0 \<le> count_employed_chess (workers c') \<and>
      int (flipped (workers c) (workers c')) \<le> count_employed_chess (workers c)"
    using step_chess_workers [OF sh, of z c] flipped_le_employed count_employed_nonneg
    unfolding count_employed_chess_eq by metis
qed

theorem selection_never_exceeds_employed_witness:
  "(0::int) \<le> 2000 \<and> count_employed (replicate 1000 (Worker_init 100)) \<le> 2000 \<and>
   is_shuffle rev \<and>
   (\<exists>ws'. automate_indices
            (py_slice_to 2000 (rev (employed_indices (replicate 1000 (Worker_init 100)))))
            (replicate 1000 (Worker_init 100)) = Inr ws' \<and>
      int (flipped (replicate 1000 (Worker_init 100)) ws') = 1000 \<and>
      count_employed ws' = 0)"
proof -
  have c: "count_employed (replicate 1000 (Worker_init 100)) = 1000"
    by (simp add: Worker_init_def count_employed_length)
  show ?thesis
    using selection_never_exceeds_employed [where shuffle = rev and j = 2000
        and ws = "replicate 1000 (Worker_init 100)" and s = Economy_init_ai and z = 0
        and c = "Economy_init_chess []"] is_shuffle_rev c
    by auto
qed

text \<open>
  Claim C9. After a step, the revenue of every demand firm is \<open>GAMMA\<close> times the
  aggregate consumption computed at the start of the step, before the stimulus. The
  aggregate \<open>total_consumption\<close> is that consumption plus the stimulus, which is half the
  tax revenue. The workers of the new state are exactly what the selection returned: their
  wages are those before the step, and their consumption fields are those computed at the
  start of the step, which still sum to the consumption before the stimulus.
\<close>

theorem firms_use_pre_stimulus_consumption:
  "(\<exists>s'. step_ai s = Inr s' \<and>
      map revenue (non_ai_firms s') =
        replicate (length (non_ai_firms s)) (GAMMA * pre_stimulus (workers s)) \<and>
      total_consumption s' = pre_stimulus (workers s) + (1 / 2) * tax_revenue (government s') \<and>
      workers s' = automate_ai (py_int (ALPHA * of_int (num_employed s)))
                     (map Worker_update (workers s)) \<and>
      map wage (workers s') = map wage (workers s) \<and>
      map consumption (workers s') =
        map (\<lambda>w. if employed w then wage w * BETA else 0) (workers s) \<and>
      sum_list (map consumption (workers s')) = pre_stimulus (workers s)) \<and>
   (\<exists>s'. step_eco z s = Inr s' \<and>
      map revenue (non_ai_firms s') =
        replicate (length (non_ai_firms s)) (GAMMA * pre_stimulus (workers s)) \<and>
      total_consumption s' = pre_stimulus (workers s) + (1 / 2) * tax_revenue (government s') \<and>
      automate_indices
        (py_slice_to (py_int (max 0 z * of_int (num_employed s)))
           (employed_indices (map Worker_update (workers s))))
        (map Worker_update (workers s)) = Inr (workers s') \<and>
      map wage (workers s') = map wage (workers s) \<and>
      map consumption (workers s') =
        map (\<lambda>w. if employed w then wage w * BETA else 0) (workers s) \<and>
      sum_list (map consumption (workers s')) = pre_stimulus (workers s)) \<and>
   (is_shuffle shuffle \<longrightarrow>
    (\<exists>c'. step_chess z shuffle c = Inr c' \<and>
      map revenue (non_ai_firms c') =
        replicate (length (non_ai_firms c)) (GAMMA * pre_stimulus (workers c)) \<and>
      total_consumption c' = pre_stimulus (workers c) + (1 / 2) * tax_revenue (government c') \<and>
      automate_indices
        (py_slice_to (py_int (max 0 z * of_int (count_employed_chess (workers c))))
           (shuffle (employed_indices (map Worker_update_chess (workers c)))))
        (map Worker_update_chess (workers c)) = Inr (workers c') \<and>
      map wage (workers c') = map wage (workers c) \<and>
      map consumption (workers c') =
        map (\<lambda>w. if employed w then wage w * BETA else 0) (workers c) \<and>
      sum_list (map consumption (workers c')) = pre_stimulus (workers c)))"
proof (intro conjI impI)
  let ?W = "map Worker_update (workers s)"
  obtain s' where s': "step_ai s = Inr s'"
    "workers s' = automate_ai (py_int (ALPHA * of_int (num_employed s))) ?W"
    "non_ai_firms s' = map (NonAIFirm_update (sum_list (map consumption ?W))) (non_ai_firms s)"
    "total_consumption s' = sum_list (map consumption ?W) + (1 / 2) * tax_revenue (government s')"
    using step_ai_fields [of s] by blast
  then show "\<exists>s'. step_ai s = Inr s' \<and>
      map revenue (non_ai_firms s') =
        replicate (length (non_ai_firms s)) (GAMMA * pre_stimulus (workers s)) \<and>
      total_consumption s' = pre_stimulus (workers s) + (1 / 2) * tax_revenue (government s') \<and>
      workers s' = automate_ai (py_int (ALPHA * of_int (num_employed s)))
                     (map Worker_update (workers s)) \<and>
      map wage (workers s') = map wage (workers s) \<and>
      map consumption (workers s') =
        map (\<lambda>w. if employed w then wage w * BETA else 0) (workers s) \<and>
      sum_list (map consumption (workers s')) = pre_stimulus (workers s)"
    by (simp add: automate_ai_frame update_frame revenue_update pre_stimulus_def del: map_map)
next
  let ?W = "map Worker_update (workers s)"
  obtain s' where s': "step_eco z s = Inr s'"
    "non_ai_firms s' = map (NonAIFirm_update (sum_list (map consumption ?W))) (non_ai_firms s)"
    "total_consumption s' = sum_list (map consumption ?W) + (1 / 2) * tax_revenue (government s')"
    and run: "automate_indices
        (py_slice_to (py_int (max 0 z * of_int (num_employed s))) (employed_indices ?W)) ?W
        = Inr (workers s')"
    using step_eco_fields [of z s] by blast
  from s' run automate_indices_frame [OF run]
  show "\<exists>s'. step_eco z s = Inr s' \<and>
      map revenue (non_ai_firms s') =
        replicate (length (non_ai_firms s)) (GAMMA * pre_stimulus (workers s)) \<and>
      total_consumption s' = pre_stimulus (workers s) + (1 / 2) * tax_revenue (government s') \<and>
      automate_indices
        (py_slice_to (py_int (max 0 z * of_int (num_employed s)))
           (employed_indices (map Worker_update (workers s))))
        (map Worker_update (workers s)) = Inr (workers s') \<and>
      map wage (workers s') = map wage (workers s) \<and>
      map consumption (workers s') =
        map (\<lambda>w. if employed w then wage w * BETA else 0) (workers s) \<and>
      sum_list (map consumption (workers s')) = pre_stimulus (workers s)"
    by (simp add: update_frame revenue_update pre_stimulus_def del: map_map)
next
  assume sh: "is_shuffle shuffle"
  let ?W = "map Worker_update_chess (workers c)"
  obtain c' where c': "step_chess z shuffle c = Inr c'"
    "non_ai_firms c' = map (NonAIFirm_update (sum_list (map consumption ?W))) (non_ai_firms c)"
    "total_consumption c' = sum_list (map consumption ?W) + (1 / 2) * tax_revenue (government c')"
    and run: "automate_indices
        (py_slice_to (py_int (max 0 z * of_int (count_employed_chess ?W)))
           (shuffle (employed_indices ?W))) ?W
        = Inr (workers c')"
    using step_chess_fields [OF sh, of z c] by blast
  have cnt: "count_employed_chess ?W = count_employed_chess (workers c)"
    by (simp add: count_employed_chess_eq Worker_update_chess_eq count_employed_update)
  from c' run automate_indices_frame [OF run] cnt
  show "\<exists>c'. step_chess z shuffle c = Inr c' \<and>
      map revenue (non_ai_firms c') =
        replicate (length (non_ai_firms c)) (GAMMA * pre_stimulus (workers c)) \<and>
      total_consumption c' = pre_stimulus (workers c) + (1 / 2) * tax_revenue (government c') \<and>
      automate_indices
        (py_slice_to (py_int (max 0 z * of_int (count_employed_chess (workers c))))
           (shuffle (employed_indices (map Worker_update_chess (workers c)))))
        (map Worker_update_chess (workers c)) = Inr (workers c') \<and>
      map wage (workers c') = map wage (workers c) \<and>
      map consumption (workers c') =
        map (\<lambda>w. if employed w then wage w * BETA else 0) (workers c) \<and>
      sum_list (map consumption (workers c')) = pre_stimulus (workers c)"
    by (simp add: update_frame revenue_update Worker_update_chess_eq pre_stimulus_def del: map_map)
qed

theorem firms_use_pre_stimulus_consumption_witness:
  "is_shuffle rev \<and>
   (\<exists>c'. step_chess (1 / 20) rev (Economy_init_chess (replicate 1000 100)) = Inr c' \<and>
      map revenue (non_ai_firms c') = replicate 5 56000 \<and>
      total_consumption c' = 80000 + (1 / 2) * tax_revenue (government c') \<and>
      sum_list (map consumption (workers c')) = 80000)"
proof -
  have p: "pre_stimulus (workers (Economy_init_chess (replicate 1000 100))) = 80000"
    "length (non_ai_firms (Economy_init_chess (replicate 1000 100))) = 5"
    by (simp_all add: Economy_init_chess_def Worker_init_chess_def pre_stimulus_def BETA_def
        sum_list_replicate Let_def)
  show ?thesis
    using firms_use_pre_stimulus_consumption [where shuffle = rev and z = "1 / 20"
        and c = "Economy_init_chess (replicate 1000 100)" and s = Economy_init_ai]
      is_shuffle_rev p
    by (auto simp add: GAMMA_def)
qed

section \<open>The government\<close>

lemma wages_of_employed_uniform:
  "\<forall>w\<in>set ws. wage w = INITIAL_WAGE \<Longrightarrow>
   sum_list (map wage (filter employed ws)) = of_int (count_employed ws) * INITIAL_WAGE"
  by (induction ws) (simp_all add: count_employed_length algebra_simps)

lemma reachable_ai_wages:
  "reachable_ai s \<Longrightarrow> \<forall>w\<in>set (workers s). wage w = INITIAL_WAGE"
proof (induction rule: reachable_ai.induct)
  case init
  show ?case by (simp add: Economy_init_ai_def Worker_init_def)
next
  case (step s s')
  obtain t where "step_ai s = Inr t"
    "workers t = automate_ai (py_int (ALPHA * of_int (num_employed s)))
                   (map Worker_update (workers s))"
    using step_ai_fields [of s] by blast
  with step.hyps have "map wage (workers s') = map wage (workers s)"
    by (simp add: automate_ai_frame update_frame del: map_map)
  then have "wage ` set (workers s') = wage ` set (workers s)"
    by (metis set_map)
  with step.IH show ?case by auto
qed

lemma reachable_ai_consistent:
  "reachable_ai s \<Longrightarrow> num_employed s = count_employed (workers s)"
proof (induction rule: reachable_ai.induct)
  case init
  show ?case
    by (simp add: Economy_init_ai_def Worker_init_def count_employed_length INITIAL_JOBS_def)
next
  case (step s s')
  with step_ai_fields [of s] show ?case by auto
qed

text \<open>
  Claim C6. The update of the government sets the tax revenue to \<open>TAU\<close> times the sum of
  the wages of the employed workers and of the revenues of the demand firms, and returns
  half of it as the stimulus; with no demand firm the tax revenue is \<open>TAU\<close> times the wages
  of the employed workers. In \<^verbatim>\<open>ai_economy.py\<close>, where the wage bill is the head count
  times \<open>INITIAL_WAGE\<close>, this holds when every wage is \<open>INITIAL_WAGE\<close>, as it is in every
  state a run passes through. After a step of each engine the tax revenue of the new state
  is that expression over the workers and firms of the new state, and the aggregate
  consumption is the sum of the workers' consumption plus half the tax revenue.
\<close>

theorem government_tax_and_stimulus:
  "Government_update_eco g n firms ws =
     (g\<lparr>tax_revenue := TAU * (sum_list (map wage (filter employed ws)) + sum_list (map revenue firms))\<rparr>,
      (1 / 2) * (TAU * (sum_list (map wage (filter employed ws)) + sum_list (map revenue firms)))) \<and>
   Government_update_chess g ws firms =
     (g\<lparr>tax_revenue := TAU * (sum_list (map wage (filter employed ws)) + sum_list (map revenue firms))\<rparr>,
      (1 / 2) * (TAU * (sum_list (map wage (filter employed ws)) + sum_list (map revenue firms)))) \<and>
   ((\<forall>w\<in>set ws. wage w = INITIAL_WAGE) \<longrightarrow>
    Government_update_ai g (count_employed ws) firms =
     (g\<lparr>tax_revenue := TAU * (sum_list (map wage (filter employed ws)) + sum_list (map revenue firms))\<rparr>,
      (1 / 2) * (TAU * (sum_list (map wage (filter employed ws)) + sum_list (map revenue firms))))) \<and>
   Government_update_eco g n [] ws =
     (g\<lparr>tax_revenue := TAU * sum_list (map wage (filter employed ws))\<rparr>,
      (1 / 2) * (TAU * sum_list (map wage (filter employed ws)))) \<and>
   Government_update_chess g ws [] =
     (g\<lparr>tax_revenue := TAU * sum_list (map wage (filter employed ws))\<rparr>,
      (1 / 2) * (TAU * sum_list (map wage (filter employed ws)))) \<and>
   ((\<forall>w\<in>set ws. wage w = INITIAL_WAGE) \<longrightarrow>
    Government_update_ai g (count_employed ws) [] =
     (g\<lparr>tax_revenue := TAU * sum_list (map wage (filter employed ws))\<rparr>,
      (1 / 2) * (TAU * sum_list (map wage (filter employed ws))))) \<and>
   (\<exists>s'. step_eco z s = Inr s' \<and>
      tax_revenue (government s') =
        TAU * (sum_list (map wage (filter employed (workers s'))) +
               sum_list (map revenue (non_ai_firms s'))) \<and>
      total_consumption s' =
        sum_list (map consumption (workers s')) + (1 / 2) * tax_revenue (government s') \<and>
      last (Tax_Revenue (data s')) = tax_revenue (government s')) \<and>
   (is_shuffle shuffle \<longrightarrow>
    (\<exists>c'. step_chess z shuffle c = Inr c' \<and>
      tax_revenue (government c') =
        TAU * (sum_list (map wage (filter employed (workers c'))) +
               sum_list (map revenue (non_ai_firms c'))) \<and>
      total_consumption c' =
        sum_list (map consumption (workers c')) + (1 / 2) * tax_revenue (government c') \<and>
      h_tax_revenue (last (history c')) = tax_revenue (government c'))) \<and>
   (reachable_ai a \<longrightarrow>
    (\<exists>a'. step_ai a = Inr a' \<and>
      tax_revenue (government a') =
        TAU * (sum_list (map wage (filter employed (workers a'))) +
               sum_list (map revenue (non_ai_firms a'))) \<and>
      total_consumption a' =
        sum_list (map consumption (workers a')) + (1 / 2) * tax_revenue (government a') \<and>
      last (Tax_Revenue (data a')) = tax_revenue (government a')))"
proof (intro conjI impI)
  show "\<exists>s'. step_eco z s = Inr s' \<and>
      tax_revenue (government s') =
        TAU * (sum_list (map wage (filter employed (workers s'))) +
               sum_list (map revenue (non_ai_firms s'))) \<and>
      total_consumption s' =
        sum_list (map consumption (workers s')) + (1 / 2) * tax_revenue (government s') \<and>
      last (Tax_Revenue (data s')) = tax_revenue (government s')"
  proof -
    let ?W = "map Worker_update (workers s)"
    obtain s' where s': "step_eco z s = Inr s'"
      "government s' = (government s)\<lparr>tax_revenue :=
         TAU * (sum_list (map wage (filter employed (workers s'))) +
                sum_list (map revenue (non_ai_firms s')))\<rparr>"
      "total_consumption s' = sum_list (map consumption ?W) + (1 / 2) * tax_revenue (government s')"
      "data s' = Data_append (data s) (num_employed s') (total_consumption s')
                (tax_revenue (government s')) (material_gain (ai_firm s'))
                (sum_list (map revenue (non_ai_firms s')))"
      and run: "automate_indices
        (py_slice_to (py_int (max 0 z * of_int (num_employed s))) (employed_indices ?W)) ?W
        = Inr (workers s')"
      using step_eco_fields [of z s] by blast
    have "tax_revenue (government s') =
        TAU * (sum_list (map wage (filter employed (workers s'))) +
               sum_list (map revenue (non_ai_firms s')))"
      by (subst s'(2)) simp
    with s'(1,3,4) automate_indices_frame(2) [OF run] show ?thesis
      by (simp add: Data_append_def)
  qed
next
  assume sh: "is_shuffle shuffle"
  let ?W = "map Worker_update_chess (workers c)"
  obtain c' where c': "step_chess z shuffle c = Inr c'"
    "government c' = (government c)\<lparr>tax_revenue :=
       TAU * (sum_list (map wage (filter employed (workers c'))) +
              sum_list (map revenue (non_ai_firms c')))\<rparr>"
    "total_consumption c' = sum_list (map consumption ?W) + (1 / 2) * tax_revenue (government c')"
    "history c' = history c @
      [\<lparr>h_employment = map employed (workers c'),
        h_wages = map (\<lambda>w. if employed w then wage w else 0) (workers c'),
        h_ai_profit = material_gain (ai_firm c'),
        h_tax_revenue = tax_revenue (government c'),
        h_consumption = total_consumption c'\<rparr>]"
    and run: "automate_indices
        (py_slice_to (py_int (max 0 z * of_int (count_employed_chess ?W)))
           (shuffle (employed_indices ?W))) ?W
        = Inr (workers c')"
    using step_chess_fields [OF sh, of z c] by blast
  have "tax_revenue (government c') =
      TAU * (sum_list (map wage (filter employed (workers c'))) +
             sum_list (map revenue (non_ai_firms c')))"
    by (subst c'(2)) simp
  with c'(1,3,4) automate_indices_frame(2) [OF run]
  show "\<exists>c'. step_chess z shuffle c = Inr c' \<and>
      tax_revenue (government c') =
        TAU * (sum_list (map wage (filter employed (workers c'))) +
               sum_list (map revenue (non_ai_firms c'))) \<and>
      total_consumption c' =
        sum_list (map consumption (workers c')) + (1 / 2) * tax_revenue (government c') \<and>
      h_tax_revenue (last (history c')) = tax_revenue (government c')"
    by simp
next
  assume r: "reachable_ai a"
  let ?W = "map Worker_update (workers a)"
  obtain a' where a': "step_ai a = Inr a'"
    "workers a' = automate_ai (py_int (ALPHA * of_int (num_employed a))) ?W"
    "government a' = (government a)\<lparr>tax_revenue :=
       TAU * (of_int (count_employed (workers a')) * INITIAL_WAGE +
              sum_list (map revenue (non_ai_firms a')))\<rparr>"
    "total_consumption a' = sum_list (map consumption ?W) + (1 / 2) * tax_revenue (government a')"
    "data a' = Data_append (data a) (num_employed a') (total_consumption a')
                (tax_revenue (government a')) (material_gain (ai_firm a'))
                (sum_list (map revenue (non_ai_firms a')))"
    using step_ai_fields [of a] by blast
  have "reachable_ai a'"
    using r a'(1) by (rule reachable_ai.step)
  then have w: "sum_list (map wage (filter employed (workers a'))) =
      of_int (count_employed (workers a')) * INITIAL_WAGE"
    by (intro wages_of_employed_uniform reachable_ai_wages)
  have "tax_revenue (government a') =
      TAU * (sum_list (map wage (filter employed (workers a'))) +
             sum_list (map revenue (non_ai_firms a')))"
    by (subst a'(3)) (simp add: w)
  with a'(1,2,4,5)
  show "\<exists>a'. step_ai a = Inr a' \<and>
      tax_revenue (government a') =
        TAU * (sum_list (map wage (filter employed (workers a'))) +
               sum_list (map revenue (non_ai_firms a'))) \<and>
      total_consumption a' =
        sum_list (map consumption (workers a')) + (1 / 2) * tax_revenue (government a') \<and>
      last (Tax_Revenue (data a')) = tax_revenue (government a')"
    by (simp add: Data_append_def automate_ai_frame)
qed (simp_all add: Government_update_eco_def Government_update_chess_def
      Government_update_ai_def wages_of_employed_uniform Let_def)

theorem government_tax_and_stimulus_witness:
  "reachable_ai Economy_init_ai \<and> is_shuffle rev \<and>
   map wage (workers Economy_init_ai) = replicate 1000 INITIAL_WAGE \<and>
   Government_update_ai Government_init (count_employed (workers Economy_init_ai)) [] =
     (\<lparr>tax_revenue = 30000\<rparr>, 15000) \<and>
   (\<exists>a'. step_ai Economy_init_ai = Inr a' \<and>
      tax_revenue (government a') =
        TAU * (sum_list (map wage (filter employed (workers a'))) +
               sum_list (map revenue (non_ai_firms a')))) \<and>
   (\<exists>c'. step_chess (1 / 20) rev (Economy_init_chess (replicate 1000 100)) = Inr c' \<and>
      total_consumption c' =
        sum_list (map consumption (workers c')) + (1 / 2) * tax_revenue (government c'))"
proof -
  have w: "\<forall>w\<in>set (workers Economy_init_ai). wage w = INITIAL_WAGE"
    by (simp add: Economy_init_ai_def Worker_init_def)
  have u: "map wage (workers Economy_init_ai) = replicate 1000 INITIAL_WAGE"
    by (simp add: Economy_init_ai_def Worker_init_def INITIAL_JOBS_def)
  have v: "TAU * sum_list (map wage (filter employed (workers Economy_init_ai))) = 30000"
    by (simp add: Economy_init_ai_def Worker_init_def consts_defs sum_list_replicate)
  show ?thesis
    using government_tax_and_stimulus [where shuffle = rev and z = "1 / 20"
        and c = "Economy_init_chess (replicate 1000 100)" and a = Economy_init_ai
        and ws = "workers Economy_init_ai" and g = Government_init
        and s = Economy_init_ai and firms = "[]" and n = 0]
      is_shuffle_rev w u v reachable_ai.init
    by (auto simp add: Government_init_def)
qed

section \<open>The first two steps of \<^verbatim>\<open>ai_economy.py\<close>\<close>

text \<open>
  Claim C4. From the initial state of \<^verbatim>\<open>ai_economy.py\<close> (1000 workers, every wage 100,
  rate 0.05) the first step automates \<open>\<lfloor>0.05 \<times> 1000\<rfloor> = 50\<close> jobs and leaves 950 workers
  employed. The raw profit is \<open>50 \<times> 50 = 2500\<close>; the aggregate consumption equals the
  baseline, so the ratio is 1 and the adjusted profit 2500 is added to \<open>material_gain\<close>.
\<close>

theorem first_step_ai:
  "num_employed Economy_init_ai = 1000 \<and>
   map wage (workers Economy_init_ai) = replicate 1000 100 \<and>
   map employed (workers Economy_init_ai) = replicate 1000 True \<and>
   py_int (ALPHA * of_int (num_employed Economy_init_ai)) = 50 \<and>
   raw_profit 50 = 50 * 50 \<and> raw_profit 50 = 2500 \<and>
   sum_list (map consumption (map Worker_update (workers Economy_init_ai))) =
     initial_consumption Economy_init_ai \<and>
   demand_ratio (sum_list (map consumption (map Worker_update (workers Economy_init_ai))))
     (initial_consumption Economy_init_ai) = Inr 1 \<and>
   adjusted_profit 50 1 = 2500 \<and>
   AIFirm_update_ai (ai_firm Economy_init_ai) (num_employed Economy_init_ai)
     (sum_list (map consumption (map Worker_update (workers Economy_init_ai))))
     (initial_consumption Economy_init_ai) = Inr (\<lparr>material_gain = 2500\<rparr>, 50) \<and>
   step_ai Economy_init_ai = Inr ai_after_one \<and>
   num_employed ai_after_one = 950 \<and>
   count_employed (workers ai_after_one) = 950 \<and>
   material_gain (ai_firm ai_after_one) = material_gain (ai_firm Economy_init_ai) + 2500"
proof (intro conjI)
  show "step_ai Economy_init_ai = Inr ai_after_one" by (rule step_ai_init)
qed (simp_all add: Economy_init_ai_def ai_after_one_def AIFirm_update_ai_def demand_ratio_def
      py_truediv_def Worker_update_def Worker_init_def consts_defs py_int_def
      adjusted_profit_def raw_profit_def count_employed_length AIFirm_init_def
      sum_list_replicate)

text \<open>
  Claim C1, on \<^verbatim>\<open>ai_economy.py\<close>. After the first step 950 workers are employed and the
  firm asks for 47 jobs in the second step, so 47 workers should become unemployed. The
  loop of \<^verbatim>\<open>ai_economy.py\<close> only looks at the workers at the positions below 47, who lost
  their jobs in the first step: the second step flips no worker, and the head count stays
  at 950.
\<close>

theorem second_step_ai_automates_nobody:
  "step_ai Economy_init_ai = Inr ai_after_one \<and>
   count_employed (workers ai_after_one) = 950 \<and>
   AIFirm_update_ai (ai_firm ai_after_one) (num_employed ai_after_one)
     (sum_list (map consumption (map Worker_update (workers ai_after_one))))
     (initial_consumption ai_after_one) = Inr (\<lparr>material_gain = 19165 / 4\<rparr>, 47) \<and>
   min 47 (count_employed (workers ai_after_one)) = 47 \<and>
   step_ai ai_after_one = Inr ai_after_two \<and>
   flipped (workers ai_after_one) (workers ai_after_two) = 0 \<and>
   count_employed (workers ai_after_two) = 950 \<and>
   Employment (data ai_after_two) = [1000, 950, 950]"
proof (intro conjI)
  show "step_ai Economy_init_ai = Inr ai_after_one" by (rule step_ai_init)
  show "step_ai ai_after_one = Inr ai_after_two" by (rule step_ai_after_one)
  show "AIFirm_update_ai (ai_firm ai_after_one) (num_employed ai_after_one)
     (sum_list (map consumption (map Worker_update (workers ai_after_one))))
     (initial_consumption ai_after_one) = Inr (\<lparr>material_gain = 19165 / 4\<rparr>, 47)"
    by (simp add: ai_after_one_def AIFirm_update_ai_def demand_ratio_def py_truediv_def
        Worker_update_def consts_defs py_int_def adjusted_profit_def raw_profit_def
        sum_list_replicate)
  show "flipped (workers ai_after_one) (workers ai_after_two) = 0"
    by (simp add: flipped_def ai_after_one_def ai_after_two_def zip_replicate)
qed (simp_all add: ai_after_one_def ai_after_two_def count_employed_length)

text \<open>
  The same happens at every later step: a run of \<^verbatim>\<open>ai_economy.py\<close> is either in its
  initial state or has 950 employed workers, those at the positions from 50 on.
\<close>

lemma reachable_ai_stalls:
  "reachable_ai s \<Longrightarrow>
   s = Economy_init_ai \<or>
   (num_employed s = 950 \<and> map employed (workers s) = replicate 50 False @ replicate 950 True)"
proof (induction rule: reachable_ai.induct)
  case init
  show ?case by simp
next
  case (step s s')
  from step.IH show ?case
  proof
    assume "s = Economy_init_ai"
    with step.hyps(2) have "s' = ai_after_one"
      by (simp add: step_ai_init)
    then show ?thesis
      by (simp add: ai_after_one_def)
  next
    assume stalled: "num_employed s = 950 \<and>
      map employed (workers s) = replicate 50 False @ replicate 950 True"
    let ?W = "map Worker_update (workers s)"
    let ?F = "replicate 50 False @ replicate 950 True"
    have flags: "map employed ?W = ?F"
      using stalled by (simp add: comp_def Worker_update_fields)
    have "length (map employed ?W) = length ?F"
      by (simp only: flags)
    then have len: "length ?W = 1000" by simp
    obtain t where t: "step_ai s = Inr t"
      "workers t = automate_ai (py_int (ALPHA * of_int (num_employed s))) ?W"
      "num_employed t = count_employed (workers t)"
      using step_ai_fields [of s] by blast
    have j: "py_int (ALPHA * of_int (num_employed s)) = 47"
      using stalled by (simp add: py_int_def ALPHA_def)
    have low: "\<not> employed (?W ! i)" if "i < 47" for i
    proof -
      from that len have "employed (?W ! i) = map employed ?W ! i"
        by (simp del: map_map)
      also have "\<dots> = ?F ! i"
        by (simp only: flags)
      also from that have "\<dots> = False"
        by (simp add: nth_append)
      finally show ?thesis by simp
    qed
    have same: "map employed (automate_ai 47 ?W) = map employed ?W"
    proof (rule nth_equalityI)
      show "length (map employed (automate_ai 47 ?W)) = length (map employed ?W)"
        by (simp add: automate_ai_length)
    next
      fix i assume "i < length (map employed (automate_ai 47 ?W))"
      then have i: "i < length ?W" by (simp add: automate_ai_length)
      have "employed (automate_ai 47 ?W ! i) = employed (?W ! i)"
        using low [of i] by (simp only: automate_ai_nth [OF i]) auto
      with i show "map employed (automate_ai 47 ?W) ! i = map employed ?W ! i"
        by (simp add: automate_ai_length del: map_map)
    qed
    from t step.hyps(2) have s': "workers s' = automate_ai 47 ?W"
      "num_employed s' = count_employed (workers s')"
      by (simp_all add: j)
    have f: "map employed (workers s') = ?F"
      by (simp only: s'(1) same flags)
    have "count_employed (workers s') = int (length (filter id (map employed (workers s'))))"
      by (simp only: count_flags)
    also have "\<dots> = 950" by (simp add: f)
    finally have "num_employed s' = 950"
      using s'(2) by simp
    with f show ?thesis by simp
  qed
qed

section \<open>Total unemployment\<close>

text \<open>
  Claim C10 as stated fails. In \<^verbatim>\<open>eco.py\<close>, a step whose rate draw is 1 automates all
  1000 workers. In the state it leaves, nobody is employed, the workers still hold the
  consumption of the start of that step, and the firms and the government their revenue.
  The next step sets the consumption of every worker, the revenue of every firm, the tax
  revenue and the aggregate consumption to 0: the agents change.
\<close>

theorem unemployment_step_changes_agents:
  "step_eco 1 (Economy_init_eco (replicate 1000 100)) = Inr eco_all_automated \<and>
   count_employed (workers eco_all_automated) = 0 \<and>
   num_employed eco_all_automated = 0 \<and>
   step_eco 0 eco_all_automated = Inr eco_settled \<and>
   workers eco_settled \<noteq> workers eco_all_automated \<and>
   non_ai_firms eco_settled \<noteq> non_ai_firms eco_all_automated \<and>
   government eco_settled \<noteq> government eco_all_automated \<and>
   total_consumption eco_settled \<noteq> total_consumption eco_all_automated"
proof (intro conjI)
  show "step_eco 1 (Economy_init_eco (replicate 1000 100)) = Inr eco_all_automated"
    by (rule step_eco_all_automated)
  show "step_eco 0 eco_all_automated = Inr eco_settled"
    by (rule step_eco_settled)
qed (simp_all add: eco_all_automated_def eco_settled_def count_employed_length)

lemma none_employed:
  assumes "count_employed ws = 0"
  shows "\<forall>w\<in>set ws. \<not> employed w"
    and "map Worker_update ws = map (\<lambda>w. w\<lparr>consumption := 0\<rparr>) ws"
    and "filter employed (map Worker_update ws) = []"
    and "employed_indices (map Worker_update ws) = []"
    and "count_employed (map Worker_update ws) = 0"
    and "sum_list (map consumption (map Worker_update ws)) = 0"
    and "automate_ai j (map Worker_update ws) = map Worker_update ws"
proof -
  from assms have f: "filter employed ws = []"
    by (simp add: count_employed_length)
  then show n: "\<forall>w\<in>set ws. \<not> employed w"
    by (simp add: filter_empty_conv)
  then show "map Worker_update ws = map (\<lambda>w. w\<lparr>consumption := 0\<rparr>) ws"
    by (simp add: Worker_update_def)
  from f show f': "filter employed (map Worker_update ws) = []"
    by (simp add: filter_employed_update)
  then have "length (employed_indices (map Worker_update ws)) = 0"
    by (simp only: employed_indices_length list.size)
  then show "employed_indices (map Worker_update ws) = []" by simp
  from assms show "count_employed (map Worker_update ws) = 0"
    by (simp only: count_employed_update)
  from n show "sum_list (map consumption (map Worker_update ws)) = 0"
    by (induction ws) (simp_all add: Worker_update_fields)
  have "\<forall>w\<in>set (take (nat j) (map Worker_update ws)). \<not> employed w"
    using n by (auto dest!: in_set_takeD simp add: Worker_update_fields)
  then have "map (\<lambda>w. if employed w then w\<lparr>employed := False\<rparr> else w)
               (take (nat j) (map Worker_update ws)) = take (nat j) (map Worker_update ws)"
    by (intro map_idI) simp
  then show "automate_ai j (map Worker_update ws) = map Worker_update ws"
    by (simp only: automate_ai_take_drop append_take_drop_id)
qed

lemma adjusted_profit_zero: "adjusted_profit 0 r = 0"
  by (simp add: adjusted_profit_def raw_profit_def)

lemma NonAIFirm_update_zero: "NonAIFirm_update 0 = (\<lambda>f. f\<lparr>revenue := 0\<rparr>)"
  by (rule ext) (simp add: NonAIFirm_update_def)

lemma revenue_zero: "sum_list (map revenue (map (\<lambda>f. f\<lparr>revenue := 0\<rparr>) firms)) = 0"
  by (induction firms) simp_all

lemma unemployed_step_ai:
  assumes c: "count_employed (workers s) = 0" and n: "num_employed s = 0"
  shows "step_ai s = Inr (s\<lparr>workers := map (\<lambda>w. w\<lparr>consumption := 0\<rparr>) (workers s),
            non_ai_firms := map (\<lambda>f. f\<lparr>revenue := 0\<rparr>) (non_ai_firms s),
            government := (government s)\<lparr>tax_revenue := 0\<rparr>,
            total_consumption := 0,
            data := Data_append (data s) 0 0 0 (material_gain (ai_firm s)) 0\<rparr>)"
proof -
  obtain r where r: "demand_ratio 0 (initial_consumption s) = Inr r"
    using demand_ratio_total by blast
  have "step_ai s = Inr (s\<lparr>workers := map Worker_update (workers s),
            non_ai_firms := map (\<lambda>f. f\<lparr>revenue := 0\<rparr>) (non_ai_firms s),
            government := (government s)\<lparr>tax_revenue := 0\<rparr>,
            total_consumption := 0,
            data := Data_append (data s) 0 0 0 (material_gain (ai_firm s)) 0\<rparr>)"
    using r n
    by (simp add: step_ai_def Let_def AIFirm_update_ai_def Government_update_ai_def
        none_employed(5,6,7) [OF c] py_int_def adjusted_profit_zero NonAIFirm_update_zero
        revenue_zero del: map_map)
  then show ?thesis
    by (simp only: none_employed(2) [OF c])
qed

lemma unemployed_step_eco:
  assumes c: "count_employed (workers s) = 0" and n: "num_employed s = 0"
  shows "step_eco z s = Inr (s\<lparr>workers := map (\<lambda>w. w\<lparr>consumption := 0\<rparr>) (workers s),
            non_ai_firms := map (\<lambda>f. f\<lparr>revenue := 0\<rparr>) (non_ai_firms s),
            government := (government s)\<lparr>tax_revenue := 0\<rparr>,
            total_consumption := 0,
            data := Data_append (data s) 0 0 0 (material_gain (ai_firm s)) 0\<rparr>)"
proof -
  obtain r where r: "demand_ratio 0 (initial_consumption s) = Inr r"
    using demand_ratio_total by blast
  have "step_eco z s = Inr (s\<lparr>workers := map Worker_update (workers s),
            non_ai_firms := map (\<lambda>f. f\<lparr>revenue := 0\<rparr>) (non_ai_firms s),
            government := (government s)\<lparr>tax_revenue := 0\<rparr>,
            total_consumption := 0,
            data := Data_append (data s) 0 0 0 (material_gain (ai_firm s)) 0\<rparr>)"
    using r n
    by (simp add: step_eco_def Let_def AIFirm_update_eco_def Government_update_eco_def
        none_employed(3,4,5,6) [OF c] py_int_def py_slice_to_def adjusted_profit_zero
        NonAIFirm_update_zero revenue_zero del: map_map)
  then show ?thesis
    by (simp only: none_employed(2) [OF c])
qed

lemma unemployed_step_chess:
  assumes c: "count_employed_chess (workers s) = 0" and sh: "is_shuffle shuffle"
  shows "step_chess z shuffle s =
           Inr (s\<lparr>workers := map (\<lambda>w. w\<lparr>consumption := 0\<rparr>) (workers s),
            non_ai_firms := map (\<lambda>f. f\<lparr>revenue := 0\<rparr>) (non_ai_firms s),
            government := (government s)\<lparr>tax_revenue := 0\<rparr>,
            total_consumption := 0,
            history := history s @
              [\<lparr>h_employment = replicate (length (workers s)) False,
                h_wages = replicate (length (workers s)) 0,
                h_ai_profit = material_gain (ai_firm s),
                h_tax_revenue = 0,
                h_consumption = 0\<rparr>]\<rparr>)"
proof -
  from c have c': "count_employed (workers s) = 0"
    by (simp add: count_employed_chess_eq)
  obtain r where r: "demand_ratio 0 (initial_consumption s) = Inr r"
    using demand_ratio_total by blast
  have s0: "shuffle [] = []"
    using is_shuffle_props(3) [OF sh, of "[]"] by simp
  have m1: "map employed (map Worker_update (workers s)) = replicate (length (workers s)) False"
    using none_employed(1) [OF c'] by (intro nth_equalityI) (simp_all add: Worker_update_fields)
  have m2: "map (\<lambda>w. if employed w then wage w else 0) (map Worker_update (workers s))
            = replicate (length (workers s)) 0"
    using none_employed(1) [OF c'] by (intro nth_equalityI) (simp_all add: Worker_update_fields)
  have "step_chess z shuffle s =
           Inr (s\<lparr>workers := map Worker_update (workers s),
            non_ai_firms := map (\<lambda>f. f\<lparr>revenue := 0\<rparr>) (non_ai_firms s),
            government := (government s)\<lparr>tax_revenue := 0\<rparr>,
            total_consumption := 0,
            history := history s @
              [\<lparr>h_employment = replicate (length (workers s)) False,
                h_wages = replicate (length (workers s)) 0,
                h_ai_profit = material_gain (ai_firm s),
                h_tax_revenue = 0,
                h_consumption = 0\<rparr>]\<rparr>)"
    using r
    by (simp add: step_chess_def Let_def AIFirm_update_chess_def Government_update_chess_def
        Worker_update_chess_eq count_employed_chess_eq
        none_employed(3,4,5,6) [OF c'] py_int_def s0 py_slice_to_def adjusted_profit_zero
        NonAIFirm_update_zero revenue_zero m1 m2 del: map_map)
  then show ?thesis
    by (simp only: none_employed(2) [OF c'])
qed

text \<open>
  Claim C10, amended. From a state in which no worker is employed (and, for
  \<^verbatim>\<open>ai_economy.py\<close> and \<^verbatim>\<open>eco.py\<close>, whose stored head count is 0), a step returns; it
  leaves every wage, every employed flag, the profit of the automation firm and the
  baseline as they were, sets the consumption of every worker, the revenue of every demand
  firm, the tax revenue and the aggregate consumption to 0, and appends a snapshot with head
  count 0 (in \<^verbatim>\<open>python/chess.py\<close>: every flag false and every wage shown as 0),
  consumption 0, tax revenue 0, the unchanged profit and firm revenue 0. A further step
  changes nothing but the history, to which it appends the same snapshot.
\<close>

theorem unemployment_absorbing:
  "(count_employed (workers a) = 0 \<and> num_employed a = 0 \<longrightarrow>
    (\<exists>a'. step_ai a = Inr a' \<and>
       workers a' = map (\<lambda>w. w\<lparr>consumption := 0\<rparr>) (workers a) \<and>
       ai_firm a' = ai_firm a \<and>
       non_ai_firms a' = map (\<lambda>f. f\<lparr>revenue := 0\<rparr>) (non_ai_firms a) \<and>
       government a' = (government a)\<lparr>tax_revenue := 0\<rparr> \<and>
       total_consumption a' = 0 \<and>
       initial_consumption a' = initial_consumption a \<and>
       num_employed a' = 0 \<and>
       data a' = Data_append (data a) 0 0 0 (material_gain (ai_firm a)) 0 \<and>
       step_ai a' = Inr (a'\<lparr>data := Data_append (data a') 0 0 0 (material_gain (ai_firm a)) 0\<rparr>))) \<and>
   (count_employed (workers s) = 0 \<and> num_employed s = 0 \<longrightarrow>
    (\<exists>s'. step_eco z s = Inr s' \<and>
       workers s' = map (\<lambda>w. w\<lparr>consumption := 0\<rparr>) (workers s) \<and>
       ai_firm s' = ai_firm s \<and>
       non_ai_firms s' = map (\<lambda>f. f\<lparr>revenue := 0\<rparr>) (non_ai_firms s) \<and>
       government s' = (government s)\<lparr>tax_revenue := 0\<rparr> \<and>
       total_consumption s' = 0 \<and>
       initial_consumption s' = initial_consumption s \<and>
       num_employed s' = 0 \<and>
       data s' = Data_append (data s) 0 0 0 (material_gain (ai_firm s)) 0 \<and>
       step_eco z' s' = Inr (s'\<lparr>data := Data_append (data s') 0 0 0 (material_gain (ai_firm s)) 0\<rparr>))) \<and>
   (count_employed_chess (workers c) = 0 \<and> is_shuffle shuffle \<and> is_shuffle shuffle' \<longrightarrow>
    (\<exists>c'. step_chess z shuffle c = Inr c' \<and>
       workers c' = map (\<lambda>w. w\<lparr>consumption := 0\<rparr>) (workers c) \<and>
       ai_firm c' = ai_firm c \<and>
       non_ai_firms c' = map (\<lambda>f. f\<lparr>revenue := 0\<rparr>) (non_ai_firms c) \<and>
       government c' = (government c)\<lparr>tax_revenue := 0\<rparr> \<and>
       total_consumption c' = 0 \<and>
       initial_consumption c' = initial_consumption c \<and>
       history c' = history c @
         [\<lparr>h_employment = replicate (length (workers c)) False,
           h_wages = replicate (length (workers c)) 0,
           h_ai_profit = material_gain (ai_firm c),
           h_tax_revenue = 0, h_consumption = 0\<rparr>] \<and>
       step_chess z' shuffle' c' =
         Inr (c'\<lparr>history := history c' @
           [\<lparr>h_employment = replicate (length (workers c)) False,
             h_wages = replicate (length (workers c)) 0,
             h_ai_profit = material_gain (ai_firm c),
             h_tax_revenue = 0, h_consumption = 0\<rparr>]\<rparr>)))"
proof (intro conjI impI; elim conjE)
  assume c: "count_employed (workers a) = 0" and n: "num_employed a = 0"
  let ?a' = "a\<lparr>workers := map (\<lambda>w. w\<lparr>consumption := 0\<rparr>) (workers a),
            non_ai_firms := map (\<lambda>f. f\<lparr>revenue := 0\<rparr>) (non_ai_firms a),
            government := (government a)\<lparr>tax_revenue := 0\<rparr>,
            total_consumption := 0,
            data := Data_append (data a) 0 0 0 (material_gain (ai_firm a)) 0\<rparr>"
  have 1: "step_ai a = Inr ?a'"
    using c n by (rule unemployed_step_ai)
  have "count_employed (workers ?a') = 0" "num_employed ?a' = 0"
    using c n by (simp_all add: count_employed_zeroed)
  then have "step_ai ?a' = Inr (?a'\<lparr>workers := map (\<lambda>w. w\<lparr>consumption := 0\<rparr>) (workers ?a'),
            non_ai_firms := map (\<lambda>f. f\<lparr>revenue := 0\<rparr>) (non_ai_firms ?a'),
            government := (government ?a')\<lparr>tax_revenue := 0\<rparr>,
            total_consumption := 0,
            data := Data_append (data ?a') 0 0 0 (material_gain (ai_firm ?a')) 0\<rparr>)"
    by (rule unemployed_step_ai)
  then have 2: "step_ai ?a' =
      Inr (?a'\<lparr>data := Data_append (data ?a') 0 0 0 (material_gain (ai_firm a)) 0\<rparr>)"
    by (simp add: comp_def)
  show "\<exists>a'. step_ai a = Inr a' \<and>
       workers a' = map (\<lambda>w. w\<lparr>consumption := 0\<rparr>) (workers a) \<and>
       ai_firm a' = ai_firm a \<and>
       non_ai_firms a' = map (\<lambda>f. f\<lparr>revenue := 0\<rparr>) (non_ai_firms a) \<and>
       government a' = (government a)\<lparr>tax_revenue := 0\<rparr> \<and>
       total_consumption a' = 0 \<and>
       initial_consumption a' = initial_consumption a \<and>
       num_employed a' = 0 \<and>
       data a' = Data_append (data a) 0 0 0 (material_gain (ai_firm a)) 0 \<and>
       step_ai a' = Inr (a'\<lparr>data := Data_append (data a') 0 0 0 (material_gain (ai_firm a)) 0\<rparr>)"
    using 1 2 n by (intro exI [of _ ?a']) simp
next
  assume c: "count_employed (workers s) = 0" and n: "num_employed s = 0"
  let ?s' = "s\<lparr>workers := map (\<lambda>w. w\<lparr>consumption := 0\<rparr>) (workers s),
            non_ai_firms := map (\<lambda>f. f\<lparr>revenue := 0\<rparr>) (non_ai_firms s),
            government := (government s)\<lparr>tax_revenue := 0\<rparr>,
            total_consumption := 0,
            data := Data_append (data s) 0 0 0 (material_gain (ai_firm s)) 0\<rparr>"
  have 1: "step_eco z s = Inr ?s'"
    using c n by (rule unemployed_step_eco)
  have "count_employed (workers ?s') = 0" "num_employed ?s' = 0"
    using c n by (simp_all add: count_employed_zeroed)
  then have "step_eco z' ?s' = Inr (?s'\<lparr>workers := map (\<lambda>w. w\<lparr>consumption := 0\<rparr>) (workers ?s'),
            non_ai_firms := map (\<lambda>f. f\<lparr>revenue := 0\<rparr>) (non_ai_firms ?s'),
            government := (government ?s')\<lparr>tax_revenue := 0\<rparr>,
            total_consumption := 0,
            data := Data_append (data ?s') 0 0 0 (material_gain (ai_firm ?s')) 0\<rparr>)"
    by (rule unemployed_step_eco)
  then have 2: "step_eco z' ?s' =
      Inr (?s'\<lparr>data := Data_append (data ?s') 0 0 0 (material_gain (ai_firm s)) 0\<rparr>)"
    by (simp add: comp_def)
  show "\<exists>s'. step_eco z s = Inr s' \<and>
       workers s' = map (\<lambda>w. w\<lparr>consumption := 0\<rparr>) (workers s) \<and>
       ai_firm s' = ai_firm s \<and>
       non_ai_firms s' = map (\<lambda>f. f\<lparr>revenue := 0\<rparr>) (non_ai_firms s) \<and>
       government s' = (government s)\<lparr>tax_revenue := 0\<rparr> \<and>
       total_consumption s' = 0 \<and>
       initial_consumption s' = initial_consumption s \<and>
       num_employed s' = 0 \<and>
       data s' = Data_append (data s) 0 0 0 (material_gain (ai_firm s)) 0 \<and>
       step_eco z' s' = Inr (s'\<lparr>data := Data_append (data s') 0 0 0 (material_gain (ai_firm s)) 0\<rparr>)"
    using 1 2 n by (intro exI [of _ ?s']) simp
next
  assume c: "count_employed_chess (workers c) = 0"
    and sh: "is_shuffle shuffle" and sh': "is_shuffle shuffle'"
  let ?snap = "\<lparr>h_employment = replicate (length (workers c)) False,
           h_wages = replicate (length (workers c)) 0,
           h_ai_profit = material_gain (ai_firm c),
           h_tax_revenue = 0, h_consumption = 0\<rparr>"
  let ?c' = "c\<lparr>workers := map (\<lambda>w. w\<lparr>consumption := 0\<rparr>) (workers c),
            non_ai_firms := map (\<lambda>f. f\<lparr>revenue := 0\<rparr>) (non_ai_firms c),
            government := (government c)\<lparr>tax_revenue := 0\<rparr>,
            total_consumption := 0,
            history := history c @ [?snap]\<rparr>"
  have 1: "step_chess z shuffle c = Inr ?c'"
    using c sh by (rule unemployed_step_chess)
  have "count_employed_chess (workers ?c') = 0"
    using c by (simp add: count_employed_zeroed count_employed_chess_eq)
  then have "step_chess z' shuffle' ?c' =
           Inr (?c'\<lparr>workers := map (\<lambda>w. w\<lparr>consumption := 0\<rparr>) (workers ?c'),
            non_ai_firms := map (\<lambda>f. f\<lparr>revenue := 0\<rparr>) (non_ai_firms ?c'),
            government := (government ?c')\<lparr>tax_revenue := 0\<rparr>,
            total_consumption := 0,
            history := history ?c' @
              [\<lparr>h_employment = replicate (length (workers ?c')) False,
                h_wages = replicate (length (workers ?c')) 0,
                h_ai_profit = material_gain (ai_firm ?c'),
                h_tax_revenue = 0,
                h_consumption = 0\<rparr>]\<rparr>)"
    using sh' by (rule unemployed_step_chess)
  then have 2: "step_chess z' shuffle' ?c' = Inr (?c'\<lparr>history := history ?c' @ [?snap]\<rparr>)"
    by (simp add: comp_def)
  show "\<exists>c'. step_chess z shuffle c = Inr c' \<and>
       workers c' = map (\<lambda>w. w\<lparr>consumption := 0\<rparr>) (workers c) \<and>
       ai_firm c' = ai_firm c \<and>
       non_ai_firms c' = map (\<lambda>f. f\<lparr>revenue := 0\<rparr>) (non_ai_firms c) \<and>
       government c' = (government c)\<lparr>tax_revenue := 0\<rparr> \<and>
       total_consumption c' = 0 \<and>
       initial_consumption c' = initial_consumption c \<and>
       history c' = history c @ [?snap] \<and>
       step_chess z' shuffle' c' = Inr (c'\<lparr>history := history c' @ [?snap]\<rparr>)"
    using 1 2 by (intro exI [of _ ?c']) simp
qed

theorem unemployment_absorbing_witness:
  "count_employed (workers eco_all_automated) = 0 \<and> num_employed eco_all_automated = 0 \<and>
   (\<exists>s'. step_eco 0 eco_all_automated = Inr s' \<and>
      map consumption (workers s') = replicate 1000 0 \<and>
      ai_firm s' = ai_firm eco_all_automated \<and>
      total_consumption s' = 0 \<and>
      step_eco (1 / 20) s' =
        Inr (s'\<lparr>data := Data_append (data s') 0 0 0 50000 0\<rparr>)) \<and>
   is_shuffle rev \<and>
   count_employed_chess
     (workers ((Economy_init_chess (replicate 1000 100))
        \<lparr>workers := replicate 1000 \<lparr>wage = 100, employed = False, consumption = 80\<rparr>\<rparr>)) = 0 \<and>
   (\<exists>c'. step_chess (1 / 20) rev
           ((Economy_init_chess (replicate 1000 100))
              \<lparr>workers := replicate 1000 \<lparr>wage = 100, employed = False, consumption = 80\<rparr>\<rparr>)
         = Inr c' \<and>
      map consumption (workers c') = replicate 1000 0 \<and> total_consumption c' = 0) \<and>
   count_employed
     (workers (Economy_init_ai
        \<lparr>workers := replicate 1000 \<lparr>wage = 100, employed = False, consumption = 80\<rparr>,
         num_employed := 0\<rparr>)) = 0 \<and>
   (\<exists>a'. step_ai
           (Economy_init_ai
              \<lparr>workers := replicate 1000 \<lparr>wage = 100, employed = False, consumption = 80\<rparr>,
               num_employed := 0\<rparr>)
         = Inr a' \<and>
      map consumption (workers a') = replicate 1000 0 \<and> total_consumption a' = 0)"
proof -
  let ?u = "replicate 1000 \<lparr>wage = 100, employed = False, consumption = 80\<rparr>"
  let ?c = "(Economy_init_chess (replicate 1000 100))\<lparr>workers := ?u\<rparr>"
  let ?a = "Economy_init_ai\<lparr>workers := ?u, num_employed := 0\<rparr>"
  have h: "count_employed (workers eco_all_automated) = 0" "num_employed eco_all_automated = 0"
    "material_gain (ai_firm eco_all_automated) = 50000"
    "map (consumption \<circ> consumption_update (\<lambda>_. 0)) (workers eco_all_automated) = replicate 1000 0"
    by (simp_all add: eco_all_automated_def count_employed_length)
  have k: "count_employed_chess (workers ?c) = 0" "count_employed (workers ?a) = 0"
    "num_employed ?a = 0"
    "map (consumption \<circ> consumption_update (\<lambda>_. 0)) (workers ?c) = replicate 1000 0"
    "map (consumption \<circ> consumption_update (\<lambda>_. 0)) (workers ?a) = replicate 1000 0"
    by (simp_all add: count_employed_chess_eq count_employed_length)
  show ?thesis
    using unemployment_absorbing [where s = eco_all_automated and z = 0 and z' = "1 / 20"
        and a = ?a and c = ?c and shuffle = rev and shuffle' = rev] h
      unemployment_absorbing [where s = eco_all_automated and z = "1 / 20" and z' = "1 / 20"
        and a = ?a and c = ?c and shuffle = rev and shuffle' = rev] k
      is_shuffle_rev
    by auto
qed

end
